theory Spec2Isabelle
  imports Complex_Main "HOL-Library.Word"
begin

section \<open>The MPC controller node (mpc\_node.cpp)\<close>

text \<open>
  A shallow embedding of \<^verbatim>\<open>src/ros/src/mpc/src/mpc_node.cpp\<close>. A C++ \<^verbatim>\<open>double\<close> is
  read as a real number (exact arithmetic, no NaN, no rounding), \<^verbatim>\<open>size_t\<close> as a 64-bit
  word and \<^verbatim>\<open>int\<close> as a 32-bit two's complement value. An out-of-range read of a
  \<^verbatim>\<open>std::vector\<close> and an integer division by zero are undefined behaviour in the
  source, and a \<^verbatim>\<open>reserve\<close> beyond \<^verbatim>\<open>max_size\<close> throws; here each is an error value, so
  that every such path is a branch of the model.
\<close>

datatype error = OutOfRange | DivisionByZero | LengthError

type_synonym size_t = "64 word"

subsection \<open>What comes from MPC.h\<close>

text \<open>
  \<^verbatim>\<open>MPC.h\<close> and the solver behind it lie outside the node's two source files. The constants
  and functions that \<^verbatim>\<open>mpc_node.cpp\<close> takes from there are the fields of this record,
  and every definition below takes it as its first argument.
\<close>

record mpc_h =
  CENTER_IN_DZIK :: real
  WHEEL_RADIUS_IN_DZIK :: real
  NUM_STEPS_BACK :: int
  STEP_POLY :: int
  X_DELTA_MIN_VALUE :: real
  Lf :: real
  polyfit :: "real list \<Rightarrow> real list \<Rightarrow> nat \<Rightarrow> real list"
  polyeval :: "real list \<Rightarrow> real \<Rightarrow> real"
  Solve :: "real list \<Rightarrow> real list \<Rightarrow> real \<Rightarrow> real list"

record Params =
  steps_ahead :: int
  dt :: real
  ref_v :: real
  ref_v_alpha :: real
  latency :: real
  cte_coeff :: real
  epsi_coeff :: real
  speed_coeff :: real
  steer_coeff :: real
  consec_steer_coeff :: real
  consec_speed_coeff :: real
  poly_degree :: int
  num_steps_poly :: int
  debug :: bool

subsection \<open>The node's members\<close>

record node =
  m_pts_x :: "real list"
  m_pts_y :: "real list"
  m_pts_OK :: bool
  m_pos_x :: real
  m_pos_y :: real
  m_pos_OK :: bool
  m_speed :: real
  m_speed_OK :: bool
  m_psi :: real
  m_psi_OK :: bool
  m_steer :: real
  m_rpm :: real
  m_latency :: real
  m_ref_v :: real
  m_ref_v_alpha :: real
  m_poly_degree :: nat
  m_num_steps_poly :: nat
  m_debug :: bool
  m_go_flag :: bool

text \<open>
  The constructor. It assigns neither the point vectors (empty by default), nor the pose,
  speed and heading, nor \<^verbatim>\<open>m_latency\<close>: the values these members hold before their first
  assignment are the arguments \<open>pos0\<close>, \<open>speed0\<close>, \<open>psi0\<close> and \<open>latency0\<close>. The two counts
  are kept as the loop reads them, in comparisons with a \<^verbatim>\<open>size_t\<close> index: a negative
  count is the unsigned value \<open>2^64\<close> above it.
\<close>

definition MPCControllerNode :: "mpc_h \<Rightarrow> Params \<Rightarrow> real \<times> real \<Rightarrow> real \<Rightarrow> real \<Rightarrow> real \<Rightarrow> node" where
  "MPCControllerNode h params pos0 speed0 psi0 latency0 =
     \<lparr> m_pts_x = [], m_pts_y = [], m_pts_OK = False,
       m_pos_x = fst pos0, m_pos_y = snd pos0, m_pos_OK = False,
       m_speed = speed0, m_speed_OK = False,
       m_psi = psi0, m_psi_OK = False,
       m_steer = CENTER_IN_DZIK h, m_rpm = 0,
       m_latency = latency0,
       m_ref_v = ref_v params, m_ref_v_alpha = ref_v_alpha params,
       m_poly_degree = unat (word_of_int (poly_degree params) :: size_t),
       m_num_steps_poly = unat (word_of_int (num_steps_poly params) :: size_t),
       m_debug = debug params, m_go_flag = False \<rparr>"

subsection \<open>Callbacks\<close>

definition centerline_cb :: "(real \<times> real) list \<Rightarrow> node \<Rightarrow> node" where
  "centerline_cb points s =
     s\<lparr> m_pts_x := map fst points, m_pts_y := map snd points, m_pts_OK := True \<rparr>"

definition signal_go_cb :: "16 word \<Rightarrow> node \<Rightarrow> node" where
  "signal_go_cb data s =
     (if data = 0 then s\<lparr> m_go_flag := False \<rparr>
      else if data = 2309 then s\<lparr> m_go_flag := True \<rparr>
      else s)"

definition odom_cb :: "real \<Rightarrow> node \<Rightarrow> node" where
  "odom_cb linear_x s = s\<lparr> m_speed := linear_x, m_speed_OK := True \<rparr>"

text \<open>The two-argument arc tangent of the C library, on real numbers.\<close>

definition atan2 :: "real \<Rightarrow> real \<Rightarrow> real" where
  "atan2 y x =
     (if 0 < x then arctan (y / x)
      else if x < 0 \<and> 0 \<le> y then arctan (y / x) + pi
      else if x < 0 then arctan (y / x) - pi
      else if 0 < y then pi / 2
      else if y < 0 then - pi / 2
      else 0)"

record quaternion =
  o_x :: real
  o_y :: real
  o_z :: real
  o_w :: real

definition pf_pose_odom_cb :: "real \<Rightarrow> real \<Rightarrow> quaternion \<Rightarrow> node \<Rightarrow> node" where
  "pf_pose_odom_cb position_x position_y orientation s =
     (let siny_cosp = 2 * (o_w orientation * o_z orientation + o_x orientation * o_y orientation);
          cosy_cosp = 1 - 2 * (o_y orientation * o_y orientation + o_z orientation * o_z orientation)
      in s\<lparr> m_pos_x := position_x, m_pos_y := position_y, m_pos_OK := True,
            m_psi := atan2 siny_cosp cosy_cosp, m_psi_OK := True \<rparr>)"

subsection \<open>Integer conversions\<close>

text \<open>
  Storing a \<^verbatim>\<open>size_t\<close> in an \<^verbatim>\<open>int\<close> keeps the low 32 bits, read as two's complement;
  using an \<^verbatim>\<open>int\<close> in \<^verbatim>\<open>size_t\<close> arithmetic reduces it modulo \<open>2 ^ 64\<close>.
\<close>

definition int_of_size_t :: "size_t \<Rightarrow> int" where
  "int_of_size_t w = sint (ucast w :: 32 word)"

definition size_t_of_int :: "int \<Rightarrow> size_t" where
  "size_t_of_int k = word_of_int k"

subsection \<open>find\_closest\<close>

function find_closest_from ::
  "real list \<Rightarrow> real list \<Rightarrow> real \<Rightarrow> real \<Rightarrow> nat \<Rightarrow> int \<Rightarrow> real \<Rightarrow> error + int" where
  "find_closest_from pts_x pts_y pos_x pos_y i closest_idx closest_dist =
     (if i < length pts_x then
        (if i < length pts_y then
           (let diff_x = pts_x ! i - pos_x;
                diff_y = pts_y ! i - pos_y;
                dist = diff_x * diff_x + diff_y * diff_y
            in if dist < closest_dist
               then find_closest_from pts_x pts_y pos_x pos_y (i + 1)
                      (int_of_size_t (word_of_nat i)) dist
               else find_closest_from pts_x pts_y pos_x pos_y (i + 1)
                      closest_idx closest_dist)
         else Inl OutOfRange)
      else Inr closest_idx)"
  by pat_completeness auto
termination
  by (relation "measure (\<lambda>(pts_x, pts_y, pos_x, pos_y, i, closest_idx, closest_dist).
        length pts_x - i)") auto

declare find_closest_from.simps [simp del]

definition find_closest :: "real list \<Rightarrow> real list \<Rightarrow> real \<Rightarrow> real \<Rightarrow> error + int" where
  "find_closest pts_x pts_y pos_x pos_y =
     find_closest_from pts_x pts_y pos_x pos_y 0 (- 1) (10 ^ 19)"

subsection \<open>The fit window (loop, lines 213 to 223)\<close>

text \<open>
  In \<^verbatim>\<open>(closest_idx + i*STEP_POLY) % m_pts_x.size()\<close> the index \<^verbatim>\<open>i\<close> and the size are
  \<^verbatim>\<open>size_t\<close>, so the \<^verbatim>\<open>int\<close> \<^verbatim>\<open>closest_idx\<close> is converted to \<^verbatim>\<open>size_t\<close> and the sum,
  the product and the remainder are unsigned 64-bit operations.
\<close>

definition window_idx :: "mpc_h \<Rightarrow> int \<Rightarrow> nat \<Rightarrow> nat \<Rightarrow> int" where
  "window_idx h closest_idx i n_pts =
     int_of_size_t ((size_t_of_int closest_idx + word_of_nat i * size_t_of_int (STEP_POLY h))
                    mod word_of_nat n_pts)"

function closest_pts_from ::
  "mpc_h \<Rightarrow> real list \<Rightarrow> real list \<Rightarrow> int \<Rightarrow> nat \<Rightarrow> nat \<Rightarrow> real list \<Rightarrow> real list
     \<Rightarrow> error + (real list \<times> real list)" where
  "closest_pts_from h pts_x pts_y closest_idx n i closest_pts_x closest_pts_y =
     (if i < n then
        (if (word_of_nat (length pts_x) :: size_t) = 0 then Inl DivisionByZero
         else
           (let idx = window_idx h closest_idx i (length pts_x)
            in if 0 \<le> idx \<and> nat idx < length pts_x \<and> nat idx < length pts_y
               then closest_pts_from h pts_x pts_y closest_idx n (i + 1)
                      (closest_pts_x @ [pts_x ! nat idx]) (closest_pts_y @ [pts_y ! nat idx])
               else Inl OutOfRange))
      else Inr (closest_pts_x, closest_pts_y))"
  by pat_completeness auto
termination
  by (relation "measure (\<lambda>(h, pts_x, pts_y, closest_idx, n, i, cx, cy). n - i)") auto

declare closest_pts_from.simps [simp del]

definition closest_pts ::
  "mpc_h \<Rightarrow> real list \<Rightarrow> real list \<Rightarrow> int \<Rightarrow> nat \<Rightarrow> error + (real list \<times> real list)" where
  "closest_pts h pts_x pts_y closest_idx n =
     closest_pts_from h pts_x pts_y closest_idx n 0 [] []"

subsection \<open>Car frame and back\<close>

text \<open>Lines 237 to 242: a map-frame point seen from the projected pose.\<close>

definition to_car_frame :: "real \<Rightarrow> real \<Rightarrow> real \<Rightarrow> real \<Rightarrow> real \<Rightarrow> real \<Rightarrow> real \<times> real" where
  "to_car_frame pt_x pt_y pos_x_lat pos_y_lat sin_psi_lat cos_psi_lat =
     (let dx = pt_x - pos_x_lat;
          dy = pt_y - pos_y_lat;
          x_rot = dx * cos_psi_lat + dy * sin_psi_lat;
          y_rot = - dx * sin_psi_lat + dy * cos_psi_lat
      in (x_rot, y_rot))"

text \<open>Lines 164 to 169 of \<^verbatim>\<open>get_marker\<close>: a car-frame point put back on the map.\<close>

definition marker_point :: "real \<Rightarrow> real \<Rightarrow> real \<Rightarrow> real \<Rightarrow> real \<Rightarrow> real \<Rightarrow> real \<times> real" where
  "marker_point x y pos_x_lat pos_y_lat sin_psi_lat cos_psi_lat =
     (let x_rot = x * cos_psi_lat - y * sin_psi_lat;
          y_rot = x * sin_psi_lat + y * cos_psi_lat
      in (x_rot + pos_x_lat, y_rot + pos_y_lat))"

function marker_points_from ::
  "real list \<Rightarrow> real \<Rightarrow> real \<Rightarrow> real \<Rightarrow> real \<Rightarrow> nat \<Rightarrow> (real \<times> real) list
     \<Rightarrow> error + (real \<times> real) list" where
  "marker_points_from vars pos_x_lat pos_y_lat sin_psi_lat cos_psi_lat i points =
     (if i < length vars then
        (if i + 1 < length vars
         then marker_points_from vars pos_x_lat pos_y_lat sin_psi_lat cos_psi_lat (i + 2)
                (points @ [marker_point (vars ! i) (vars ! (i + 1))
                             pos_x_lat pos_y_lat sin_psi_lat cos_psi_lat])
         else Inl OutOfRange)
      else Inr points)"
  by pat_completeness auto
termination
  by (relation "measure (\<lambda>(vars, px, py, sn, cs, i, points). length vars - i)") auto

declare marker_points_from.simps [simp del]

text \<open>
  The points of the marker that \<^verbatim>\<open>get_marker\<close> returns. The first two values of \<open>vars\<close>
  are skipped; \<^verbatim>\<open>reserve((vars.size() - 2) / 2)\<close> is computed in \<^verbatim>\<open>size_t\<close> and throws
  when \<open>vars\<close> has fewer than two values.
\<close>

definition get_marker ::
  "real list \<Rightarrow> real \<Rightarrow> real \<Rightarrow> real \<Rightarrow> real \<Rightarrow> error + (real \<times> real) list" where
  "get_marker vars pos_x_lat pos_y_lat sin_psi_lat cos_psi_lat =
     (if length vars < 2 then Inl LengthError
      else marker_points_from vars pos_x_lat pos_y_lat sin_psi_lat cos_psi_lat 2 [])"

subsection \<open>Transform and stabilizer (loop, lines 227 to 268)\<close>

text \<open>
  The result is \<^verbatim>\<open>xvals_vec\<close>, \<^verbatim>\<open>yvals_vec\<close> and \<^verbatim>\<open>fraction_steps_OK\<close> as they stand when
  the \<^verbatim>\<open>for\<close> loop is left, by its condition or by the \<^verbatim>\<open>break\<close>. The index \<^verbatim>\<open>i-2\<close> is a
  \<^verbatim>\<open>size_t\<close>: at \<open>i = 1\<close> it wraps around and the read is out of range.
\<close>

function xyvals_from ::
  "mpc_h \<Rightarrow> nat \<Rightarrow> nat \<Rightarrow> real list \<Rightarrow> real list \<Rightarrow> real \<Rightarrow> real \<Rightarrow> real \<Rightarrow> real
     \<Rightarrow> nat \<Rightarrow> real list \<Rightarrow> real list \<Rightarrow> error + (real list \<times> real list \<times> real)" where
  "xyvals_from h degree n closest_pts_x closest_pts_y pos_x_lat pos_y_lat sin_psi_lat cos_psi_lat
     i xvals_vec yvals_vec =
     (if i < n then
        (if i < length closest_pts_x \<and> i < length closest_pts_y then
           (let (x_rot, y_rot) = to_car_frame (closest_pts_x ! i) (closest_pts_y ! i)
                                   pos_x_lat pos_y_lat sin_psi_lat cos_psi_lat
            in if i > degree then
                 (if i - 1 < length xvals_vec then
                    (if x_rot - xvals_vec ! (i - 1) < X_DELTA_MIN_VALUE h then
                       (if 2 \<le> i \<and> i - 1 < length yvals_vec then
                          (let num_steps_remaining = n - i + 1;
                               fraction_steps_OK = real (i + 1) / real n;
                               delta_x = (xvals_vec ! (i - 1) - xvals_vec ! (i - 2))
                                           / real num_steps_remaining;
                               delta_y = (yvals_vec ! (i - 1) - yvals_vec ! (i - 2))
                                           / real num_steps_remaining
                           in Inr (xvals_vec @ map (\<lambda>sub_i. xvals_vec ! (i - 1) + real sub_i * delta_x)
                                                 [1..<num_steps_remaining],
                                   yvals_vec @ map (\<lambda>sub_i. yvals_vec ! (i - 1) + real sub_i * delta_y)
                                                 [1..<num_steps_remaining],
                                   fraction_steps_OK))
                        else Inl OutOfRange)
                     else xyvals_from h degree n closest_pts_x closest_pts_y
                            pos_x_lat pos_y_lat sin_psi_lat cos_psi_lat
                            (i + 1) (xvals_vec @ [x_rot]) (yvals_vec @ [y_rot]))
                  else Inl OutOfRange)
               else xyvals_from h degree n closest_pts_x closest_pts_y
                      pos_x_lat pos_y_lat sin_psi_lat cos_psi_lat
                      (i + 1) (xvals_vec @ [x_rot]) (yvals_vec @ [y_rot]))
         else Inl OutOfRange)
      else Inr (xvals_vec, yvals_vec, 1))"
  by pat_completeness auto
termination
  by (relation "measure (\<lambda>(h, degree, n, cx, cy, px, py, sn, cs, i, xv, yv). n - i)") auto

declare xyvals_from.simps [simp del]

definition xyvals ::
  "mpc_h \<Rightarrow> nat \<Rightarrow> nat \<Rightarrow> real list \<Rightarrow> real list \<Rightarrow> real \<Rightarrow> real \<Rightarrow> real \<Rightarrow> real
     \<Rightarrow> error + (real list \<times> real list \<times> real)" where
  "xyvals h degree n closest_pts_x closest_pts_y pos_x_lat pos_y_lat sin_psi_lat cos_psi_lat =
     xyvals_from h degree n closest_pts_x closest_pts_y pos_x_lat pos_y_lat sin_psi_lat cos_psi_lat
       0 [] []"

subsection \<open>Reference velocity (loop, line 270)\<close>

definition new_ref_v :: "real \<Rightarrow> real \<Rightarrow> real \<Rightarrow> real" where
  "new_ref_v alpha v fraction_steps_OK = alpha * v + (1 - alpha) * (fraction_steps_OK * v)"

subsection \<open>Latency projection (loop, lines 204 to 207)\<close>

definition psi_lat :: "mpc_h \<Rightarrow> node \<Rightarrow> real" where
  "psi_lat h s = m_psi s - m_latency s * (m_speed s * m_steer s / Lf h)"

definition pos_x_lat :: "mpc_h \<Rightarrow> node \<Rightarrow> real" where
  "pos_x_lat h s = m_pos_x s + m_latency s * (m_speed s * cos (psi_lat h s))"

definition pos_y_lat :: "mpc_h \<Rightarrow> node \<Rightarrow> real" where
  "pos_y_lat h s = m_pos_y s + m_latency s * (m_speed s * sin (psi_lat h s))"

subsection \<open>Actuator mapping and go gating (loop, lines 301 to 328)\<close>

definition clip_steer :: "real \<Rightarrow> real" where
  "clip_steer steer = (if steer < 0 then 0 else if steer > 1 then 1 else steer)"

definition rpm_of_speed :: "mpc_h \<Rightarrow> real \<Rightarrow> real" where
  "rpm_of_speed h speed_in_meters_by_second =
     speed_in_meters_by_second / 2 / pi / WHEEL_RADIUS_IN_DZIK h * 60 * 10"

definition actuators :: "mpc_h \<Rightarrow> bool \<Rightarrow> real \<Rightarrow> real \<Rightarrow> real \<times> real" where
  "actuators h go_flag steering_angle_in_radians speed_in_meters_by_second =
     (let steer = clip_steer (CENTER_IN_DZIK h - steering_angle_in_radians);
          rpm = rpm_of_speed h speed_in_meters_by_second
      in if \<not> go_flag then (CENTER_IN_DZIK h, 0) else (steer, rpm))"

subsection \<open>Publications\<close>

datatype topic =
  Commands_servo_position | Commands_motor_speed | Mpc_next_pos | Mpc_closest | Mpc_poly

datatype message = Float64 real | Marker "(real \<times> real) list"

type_synonym publication = "topic \<times> message"

text \<open>Lines 343 to 348: the interleaved car-frame way points.\<close>

function closest_waypoints_from ::
  "nat \<Rightarrow> real list \<Rightarrow> real list \<Rightarrow> nat \<Rightarrow> real list \<Rightarrow> error + real list" where
  "closest_waypoints_from n xvals_vec yvals_vec i closest_waypoints =
     (if i < n then
        (if i < length xvals_vec \<and> i < length yvals_vec
         then closest_waypoints_from n xvals_vec yvals_vec (i + 1)
                (closest_waypoints @ [xvals_vec ! i, yvals_vec ! i])
         else Inl OutOfRange)
      else Inr closest_waypoints)"
  by pat_completeness auto
termination
  by (relation "measure (\<lambda>(n, xv, yv, i, ws). n - i)") auto

declare closest_waypoints_from.simps [simp del]

text \<open>Lines 353 to 359: the samples of the fitted polynomial, \<open>x\<close> from 0 in steps of 0.2 below 2.1.\<close>

function for_poly_marker_from :: "mpc_h \<Rightarrow> real list \<Rightarrow> real \<Rightarrow> real list \<Rightarrow> real list" where
  "for_poly_marker_from h coeffs x for_poly_marker =
     (if x < 21 / 10
      then for_poly_marker_from h coeffs (x + 2 / 10) (for_poly_marker @ [x, polyeval h coeffs x])
      else for_poly_marker)"
  by pat_completeness auto
termination
proof (relation "measure (\<lambda>(h, coeffs, x, ms). nat \<lceil>(21 / 10 - x) * 5\<rceil>)")
  show "wf (measure (\<lambda>(h, coeffs, x, ms). nat \<lceil>(21 / 10 - x) * 5\<rceil>))"
    by simp
next
  fix h :: "'a mpc_h_scheme" and coeffs :: "real list" and x :: real and for_poly_marker :: "real list"
  assume "x < 21 / 10"
  then have pos: "0 < (21 / 10 - x) * 5"
    by simp
  have "(21 / 10 - (x + 2 / 10)) * 5 = (21 / 10 - x) * 5 - 1"
    by (simp add: algebra_simps)
  then have "\<lceil>(21 / 10 - (x + 2 / 10)) * 5\<rceil> = \<lceil>(21 / 10 - x) * 5\<rceil> - 1"
    by (simp only: ceiling_diff_one)
  moreover from pos have "0 < \<lceil>(21 / 10 - x) * 5\<rceil>"
    by (simp add: ceiling_less_iff less_ceiling_iff)
  ultimately show "((h, coeffs, x + 2 / 10, for_poly_marker @ [x, polyeval h coeffs x]),
                    (h, coeffs, x, for_poly_marker))
                   \<in> measure (\<lambda>(h, coeffs, x, ms). nat \<lceil>(21 / 10 - x) * 5\<rceil>)"
    by simp
qed

declare for_poly_marker_from.simps [simp del]

text \<open>Lines 337 to 362: what a tick publishes after the commands when \<^verbatim>\<open>m_debug\<close> is set.\<close>

definition debug_markers ::
  "mpc_h \<Rightarrow> nat \<Rightarrow> real list \<Rightarrow> real list \<Rightarrow> real list \<Rightarrow> real list
     \<Rightarrow> real \<Rightarrow> real \<Rightarrow> real \<Rightarrow> real \<Rightarrow> error + publication list" where
  "debug_markers h n vars xvals_vec yvals_vec coeffs px py sin_psi_lat cos_psi_lat =
     (case get_marker vars px py sin_psi_lat cos_psi_lat of
        Inl e \<Rightarrow> Inl e
      | Inr next_pos_marker \<Rightarrow>
          (case closest_waypoints_from n xvals_vec yvals_vec 0 [] of
             Inl e \<Rightarrow> Inl e
           | Inr closest_waypoints \<Rightarrow>
               (case get_marker closest_waypoints px py sin_psi_lat cos_psi_lat of
                  Inl e \<Rightarrow> Inl e
                | Inr closest_marker \<Rightarrow>
                    (case get_marker (for_poly_marker_from h coeffs 0 [0, 0])
                            px py sin_psi_lat cos_psi_lat of
                       Inl e \<Rightarrow> Inl e
                     | Inr poly_marker \<Rightarrow>
                         Inr [(Mpc_next_pos, Marker next_pos_marker),
                              (Mpc_closest, Marker closest_marker),
                              (Mpc_poly, Marker poly_marker)]))))"

subsection \<open>One iteration of the loop (lines 201 to 380)\<close>

text \<open>
  Lines 300 to 362: from the solver's result \<open>vars\<close> to the commands. The result is the
  node with the new \<^verbatim>\<open>m_steer\<close> and \<^verbatim>\<open>m_rpm\<close> and what was published, in order.
\<close>

definition actuate ::
  "mpc_h \<Rightarrow> node \<Rightarrow> real list \<Rightarrow> real list \<Rightarrow> real list \<Rightarrow> real list
     \<Rightarrow> real \<Rightarrow> real \<Rightarrow> real \<Rightarrow> real \<Rightarrow> error + (node \<times> publication list)" where
  "actuate h s vars xvals_vec yvals_vec coeffs px py sin_psi_lat cos_psi_lat =
     (if length vars < 2 then Inl OutOfRange
      else
        (let (steer, rpm) = actuators h (m_go_flag s) (vars ! 0) (vars ! 1);
             s' = s\<lparr> m_steer := steer, m_rpm := rpm \<rparr>;
             commands = [(Commands_servo_position, Float64 steer),
                         (Commands_motor_speed, Float64 rpm)]
         in if m_debug s then
              (case debug_markers h (m_num_steps_poly s) vars xvals_vec yvals_vec coeffs
                      px py sin_psi_lat cos_psi_lat of
                 Inl e \<Rightarrow> Inl e
               | Inr markers \<Rightarrow> Inr (s', commands @ markers))
            else Inr (s', commands)))"

text \<open>
  The body of the \<^verbatim>\<open>while\<close> loop up to \<^verbatim>\<open>ros::spinOnce\<close>. Copying \<^verbatim>\<open>xvals_vec[i]\<close> for
  \<open>i < m_num_steps_poly\<close>, and reading \<^verbatim>\<open>coeffs[c]\<close> for \<open>c \<le> m_poly_degree\<close> and
  \<^verbatim>\<open>coeffs[1]\<close>, needs that many values.
\<close>

definition loop_body :: "mpc_h \<Rightarrow> node \<Rightarrow> error + (node \<times> publication list)" where
  "loop_body h s =
     (if m_pts_OK s \<and> m_speed_OK s \<and> m_pos_OK s \<and> m_psi_OK s then
        (let px = pos_x_lat h s;
             py = pos_y_lat h s;
             n = m_num_steps_poly s
         in case find_closest (m_pts_x s) (m_pts_y s) px py of
              Inl e \<Rightarrow> Inl e
            | Inr closest_idx \<Rightarrow>
         (case closest_pts h (m_pts_x s) (m_pts_y s) (closest_idx - NUM_STEPS_BACK h) n of
              Inl e \<Rightarrow> Inl e
            | Inr (closest_pts_x, closest_pts_y) \<Rightarrow>
         (let sin_psi_lat = sin (psi_lat h s);
              cos_psi_lat = cos (psi_lat h s)
          in case xyvals h (m_poly_degree s) n closest_pts_x closest_pts_y
                    px py sin_psi_lat cos_psi_lat of
               Inl e \<Rightarrow> Inl e
             | Inr (xvals_vec, yvals_vec, fraction_steps_OK) \<Rightarrow>
         (if length xvals_vec < n \<or> length yvals_vec < n then Inl OutOfRange
          else
         (let v = new_ref_v (m_ref_v_alpha s) (m_ref_v s) fraction_steps_OK;
              coeffs = polyfit h (take n xvals_vec) (take n yvals_vec) (m_poly_degree s)
          in if length coeffs < m_poly_degree s + 1 \<or> length coeffs < 2 then Inl OutOfRange
             else
         (let cte = polyeval h coeffs 0;
              epsi = - arctan (coeffs ! 1);
              vars = Solve h [0, 0, 0, cte, epsi] coeffs v
          in actuate h s vars xvals_vec yvals_vec coeffs px py sin_psi_lat cos_psi_lat))))))
      else Inr (s, []))"

subsection \<open>The loop\<close>

datatype callback =
  Centerline "(real \<times> real) list"
| Signal_go "16 word"
| Odom real
| Pf_pose_odom real real quaternion

fun dispatch :: "callback \<Rightarrow> node \<Rightarrow> node" where
  "dispatch (Centerline points) s = centerline_cb points s"
| "dispatch (Signal_go data) s = signal_go_cb data s"
| "dispatch (Odom linear_x) s = odom_cb linear_x s"
| "dispatch (Pf_pose_odom x y orientation) s = pf_pose_odom_cb x y orientation s"

definition spinOnce :: "callback list \<Rightarrow> node \<Rightarrow> node" where
  "spinOnce queue s = fold dispatch queue s"

text \<open>
  \<^verbatim>\<open>loop\<close> over the iterations for which \<^verbatim>\<open>m_nodehandle.ok()\<close> holds: the argument lists,
  for each of them, the callbacks that its \<^verbatim>\<open>spinOnce\<close> runs; the result lists what each
  iteration published.
\<close>

fun loop :: "mpc_h \<Rightarrow> node \<Rightarrow> callback list list \<Rightarrow> error + (node \<times> publication list list)" where
  "loop h s [] = Inr (s, [])"
| "loop h s (queue # queues) =
     (case loop_body h s of
        Inl e \<Rightarrow> Inl e
      | Inr (s', published) \<Rightarrow>
          (case loop h (spinOnce queue s') queues of
             Inl e \<Rightarrow> Inl e
           | Inr (s'', rest) \<Rightarrow> Inr (s'', published # rest)))"

subsection \<open>main\<close>

text \<open>
  \<open>argv\<close> is the argument vector as \<^verbatim>\<open>ros::init\<close> leaves it, and \<^verbatim>\<open>argc\<close> its length.
  \<^verbatim>\<open>atoi\<close> and \<^verbatim>\<open>atof\<close> belong to the C library and are arguments here. \<open>Exit c\<close> is a
  \<^verbatim>\<open>return c\<close> before the node exists; \<open>Node_started params\<close> says that \<^verbatim>\<open>main\<close> went on
  to construct the node from \<open>params\<close> and to run its loop.
\<close>

datatype startup = Exit int | Node_started Params

definition main :: "(string \<Rightarrow> int) \<Rightarrow> (string \<Rightarrow> real) \<Rightarrow> string list \<Rightarrow> startup" where
  "main atoi atof argv =
     (let argc = length argv;
          num_expected_args = 15
      in if argc = num_expected_args then
           (let params = \<lparr> steps_ahead = atoi (argv ! 1), dt = atof (argv ! 2),
                           ref_v = atof (argv ! 3), ref_v_alpha = atof (argv ! 4),
                           latency = atof (argv ! 5),
                           cte_coeff = atof (argv ! 6), epsi_coeff = atof (argv ! 7),
                           speed_coeff = atof (argv ! 8), steer_coeff = atof (argv ! 9),
                           consec_steer_coeff = atof (argv ! 10),
                           consec_speed_coeff = atof (argv ! 11),
                           poly_degree = atoi (argv ! 12), num_steps_poly = atoi (argv ! 13),
                           debug = False \<rparr>;
                debug_msg = argv ! 14
            in if ref_v_alpha params > 1 \<or> ref_v_alpha params < 0 then Exit 1
               else if debug_msg = ''true'' then Node_started (params\<lparr> debug := True \<rparr>)
               else if debug_msg = ''false'' then Node_started (params\<lparr> debug := False \<rparr>)
               else Exit 1)
         else if argc > num_expected_args then Exit 1
         else Exit 1)"

subsection \<open>Auxiliary notions for the statements\<close>

text \<open>The actuator commands among the publications of an iteration, in order.\<close>

definition actuator_publications :: "publication list \<Rightarrow> publication list" where
  "actuator_publications published =
     filter (\<lambda>p. fst p = Commands_servo_position \<or> fst p = Commands_motor_speed) published"

text \<open>
  What \<^verbatim>\<open>atoi\<close> and \<^verbatim>\<open>atof\<close> of the C library return on plain decimal text: optional
  white space, an optional sign, digits and, for \<^verbatim>\<open>atof\<close>, an optional fraction; reading
  stops at the first other character. Exponents, hexadecimal text, infinities and NaN are
  left out; they are only used to run \<open>main\<close> on concrete arguments.
\<close>

definition is_digit :: "char \<Rightarrow> bool" where
  "is_digit c = (48 \<le> (of_char c :: nat) \<and> (of_char c :: nat) \<le> 57)"

definition is_space :: "char \<Rightarrow> bool" where
  "is_space c = ((of_char c :: nat) = 32 \<or> (9 \<le> (of_char c :: nat) \<and> (of_char c :: nat) \<le> 13))"

definition digits_value :: "string \<Rightarrow> nat" where
  "digits_value ds = foldl (\<lambda>a c. 10 * a + (of_char c - 48)) 0 ds"

definition split_sign :: "string \<Rightarrow> bool \<times> string" where
  "split_sign s =
     (case dropWhile is_space s of
        [] \<Rightarrow> (False, [])
      | c # r \<Rightarrow> if c = CHR ''-'' then (True, r) else if c = CHR ''+'' then (False, r)
                else (False, c # r))"

definition dec_atoi :: "string \<Rightarrow> int" where
  "dec_atoi s =
     (let (negative, t) = split_sign s;
          v = int (digits_value (takeWhile is_digit t))
      in if negative then - v else v)"

definition dec_atof :: "string \<Rightarrow> real" where
  "dec_atof s =
     (let (negative, t) = split_sign s;
          whole = takeWhile is_digit t;
          fraction = (case dropWhile is_digit t of
                        [] \<Rightarrow> []
                      | c # r \<Rightarrow> if c = CHR ''.'' then takeWhile is_digit r else []);
          v = real (digits_value whole) + real (digits_value fraction) / 10 ^ length fraction
      in if negative then - v else v)"

text \<open>
  A platform and a node to run the definitions on: a straight centre line of ten points
  one metre apart, the car on it at \<open>x = 3\<close> heading along it, no latency. The fit returns
  the zero polynomial and the solver is an argument.
\<close>

definition track_h :: "(real list \<Rightarrow> real list \<Rightarrow> real \<Rightarrow> real list) \<Rightarrow> mpc_h" where
  "track_h solver =
     \<lparr> CENTER_IN_DZIK = 1 / 2, WHEEL_RADIUS_IN_DZIK = 1 / 20, NUM_STEPS_BACK = 1,
       STEP_POLY = 2, X_DELTA_MIN_VALUE = 1 / 10, Lf = 1 / 4,
       polyfit = (\<lambda>xs ys d. replicate (d + 1) 0),
       polyeval = (\<lambda>coeffs x. 0),
       Solve = solver \<rparr>"

definition track_node :: node where
  "track_node =
     \<lparr> m_pts_x = [0, 1, 2, 3, 4, 5, 6, 7, 8, 9], m_pts_y = [0, 0, 0, 0, 0, 0, 0, 0, 0, 0],
       m_pts_OK = True, m_pos_x = 3, m_pos_y = 0, m_pos_OK = True,
       m_speed = 1, m_speed_OK = True, m_psi = 0, m_psi_OK = True,
       m_steer = 1 / 2, m_rpm = 0, m_latency = 0,
       m_ref_v = 2, m_ref_v_alpha = 1 / 2, m_poly_degree = 1, m_num_steps_poly = 3,
       m_debug = False, m_go_flag = True \<rparr>"

section \<open>Properties\<close>

subsection \<open>Frame transform\<close>

lemma marker_point_to_car_frame:
  assumes "sn\<^sup>2 + cs\<^sup>2 = (1::real)"
  shows "(case to_car_frame X Y x_p y_p sn cs of
            (x_c, y_c) \<Rightarrow> marker_point x_c y_c x_p y_p sn cs) = (X, Y)"
  unfolding to_car_frame_def marker_point_def Let_def prod.case prod.inject
proof
  show "((X - x_p) * cs + (Y - y_p) * sn) * cs - (- (X - x_p) * sn + (Y - y_p) * cs) * sn + x_p = X"
    using assms by algebra
  show "((X - x_p) * cs + (Y - y_p) * sn) * sn + (- (X - x_p) * sn + (Y - y_p) * cs) * cs + y_p = Y"
    using assms by algebra
qed

lemma to_car_frame_distance:
  assumes "sn\<^sup>2 + cs\<^sup>2 = (1::real)"
  shows "(case (to_car_frame X Y x_p y_p sn cs, to_car_frame X' Y' x_p y_p sn cs) of
            ((a, b), (c, d)) \<Rightarrow> (a - c)\<^sup>2 + (b - d)\<^sup>2) = (X - X')\<^sup>2 + (Y - Y')\<^sup>2"
  unfolding to_car_frame_def Let_def prod.case
  using assms by algebra

text \<open>
  Claim C9. For every projected pose \<open>(x_p, y_p, psi_p)\<close> and all map-frame points, the
  transform into the car frame followed by the transform of \<^verbatim>\<open>get_marker\<close> gives the
  point back exactly, and the transform into the car frame keeps the distance between
  two points.
\<close>

theorem car_frame_round_trip_isometry:
  "(case to_car_frame X Y x_p y_p (sin psi_p) (cos psi_p) of
      (x_c, y_c) \<Rightarrow> marker_point x_c y_c x_p y_p (sin psi_p) (cos psi_p)) = (X, Y)
   \<and> (case (to_car_frame X Y x_p y_p (sin psi_p) (cos psi_p),
             to_car_frame X' Y' x_p y_p (sin psi_p) (cos psi_p)) of
         ((a, b), (c, d)) \<Rightarrow> (a - c)\<^sup>2 + (b - d)\<^sup>2) = (X - X')\<^sup>2 + (Y - Y')\<^sup>2"
proof
  have unit: "(sin psi_p)\<^sup>2 + (cos psi_p)\<^sup>2 = 1"
    by simp
  show "(case to_car_frame X Y x_p y_p (sin psi_p) (cos psi_p) of
      (x_c, y_c) \<Rightarrow> marker_point x_c y_c x_p y_p (sin psi_p) (cos psi_p)) = (X, Y)"
    by (rule marker_point_to_car_frame [OF unit])
  show "(case (to_car_frame X Y x_p y_p (sin psi_p) (cos psi_p),
             to_car_frame X' Y' x_p y_p (sin psi_p) (cos psi_p)) of
         ((a, b), (c, d)) \<Rightarrow> (a - c)\<^sup>2 + (b - d)\<^sup>2) = (X - X')\<^sup>2 + (Y - Y')\<^sup>2"
    by (rule to_car_frame_distance [OF unit])
qed

subsection \<open>Reference velocity\<close>

text \<open>The bound on the smoothed value, as arithmetic.\<close>

lemma new_ref_v_le:
  fixes alpha v fraction_steps_OK :: real
  assumes "0 \<le> alpha" "alpha \<le> 1" "0 < v" "fraction_steps_OK < 1"
  shows "alpha * v + (1 - alpha) * (fraction_steps_OK * v) \<le> v"
proof -
  have "fraction_steps_OK * v \<le> v"
    using assms by simp
  then have "(1 - alpha) * (fraction_steps_OK * v) \<le> (1 - alpha) * v"
    using assms by (simp add: mult_left_mono)
  then have "alpha * v + (1 - alpha) * (fraction_steps_OK * v) \<le> alpha * v + (1 - alpha) * v"
    by simp
  also have "\<dots> = v"
    by (simp add: algebra_simps)
  finally show ?thesis .
qed

subsection \<open>The example track\<close>

lemma track_h_fields:
  "CENTER_IN_DZIK (track_h solver) = 1 / 2" "WHEEL_RADIUS_IN_DZIK (track_h solver) = 1 / 20"
  "NUM_STEPS_BACK (track_h solver) = 1" "STEP_POLY (track_h solver) = 2"
  "X_DELTA_MIN_VALUE (track_h solver) = 1 / 10" "Lf (track_h solver) = 1 / 4"
  "polyfit (track_h solver) = (\<lambda>xs ys d. replicate (d + 1) 0)"
  "polyeval (track_h solver) = (\<lambda>coeffs x. 0)"
  "Solve (track_h solver) = solver"
  by (simp_all add: track_h_def)

lemma track_find_closest:
  "find_closest [0, 1, 2, 3, 4, 5, 6, 7, 8, 9] [0, 0, 0, 0, 0, 0, 0, 0, 0, 0] 3 0 = Inr 3"
  by (simp add: find_closest_def find_closest_from.simps int_of_size_t_def)

lemma track_closest_pts:
  "closest_pts (track_h solver) [0, 1, 2, 3, 4, 5, 6, 7, 8, 9] [0, 0, 0, 0, 0, 0, 0, 0, 0, 0] 2 3
   = Inr ([2, 4, 6], [0, 0, 0])"
  by (simp add: closest_pts_def closest_pts_from.simps window_idx_def int_of_size_t_def
        size_t_of_int_def track_h_fields)

lemma track_xyvals:
  "xyvals (track_h solver) (Suc 0) 3 [2, 4, 6] [0, 0, 0] 3 0 0 1 = Inr ([- 1, 1, 3], [0, 0, 0], 1)"
  by (simp add: xyvals_def xyvals_from.simps to_car_frame_def track_h_fields)

text \<open>An iteration on the example track, for a solver that returns \<open>[d, w]\<close>.\<close>

lemma track_loop_body:
  "loop_body (track_h (\<lambda>state coeffs v. [d, w])) (track_node\<lparr> m_go_flag := g \<rparr>)
   = Inr (track_node\<lparr> m_go_flag := g,
                      m_steer := (if g then clip_steer (1 / 2 - d) else 1 / 2),
                      m_rpm := (if g then w * 6000 / pi else 0) \<rparr>,
          [(Commands_servo_position, Float64 (if g then clip_steer (1 / 2 - d) else 1 / 2)),
           (Commands_motor_speed, Float64 (if g then w * 6000 / pi else 0))])"
  by (simp add: loop_body_def track_node_def psi_lat_def pos_x_lat_def pos_y_lat_def
        track_find_closest track_closest_pts track_xyvals new_ref_v_def actuate_def
        actuators_def rpm_of_speed_def track_h_fields)

lemma track_node_ready:
  "m_pts_OK (track_node\<lparr> m_go_flag := g \<rparr>)" "m_speed_OK (track_node\<lparr> m_go_flag := g \<rparr>)"
  "m_pos_OK (track_node\<lparr> m_go_flag := g \<rparr>)" "m_psi_OK (track_node\<lparr> m_go_flag := g \<rparr>)"
  by (simp_all add: track_node_def)

subsection \<open>What an iteration publishes\<close>

lemma debug_markers_topics:
  "debug_markers h n vars xv yv coeffs px py sn cs = Inr markers \<Longrightarrow>
   actuator_publications markers = []"
  by (auto simp: debug_markers_def actuator_publications_def split: sum.splits)

lemma loop_body_skip:
  "\<not> (m_pts_OK s \<and> m_speed_OK s \<and> m_pos_OK s \<and> m_psi_OK s) \<Longrightarrow> loop_body h s = Inr (s, [])"
  unfolding loop_body_def by (rule if_not_P)

lemma actuate_commands:
  assumes "actuate h s vars xv yv coeffs px py sn cs = Inr (s', published)"
  shows "2 \<le> length vars
         \<and> (m_steer s', m_rpm s') = actuators h (m_go_flag s) (vars ! 0) (vars ! 1)
         \<and> s' = s\<lparr> m_steer := m_steer s', m_rpm := m_rpm s' \<rparr>
         \<and> actuator_publications published =
             [(Commands_servo_position, Float64 (m_steer s')),
              (Commands_motor_speed, Float64 (m_rpm s'))]"
  using assms
  by (auto simp: actuate_def Let_def actuator_publications_def
           dest: debug_markers_topics [unfolded actuator_publications_def]
           split: sum.splits prod.splits if_splits)

lemma loop_body_actuate:
  assumes "loop_body h s = Inr (s', published)"
    and "m_pts_OK s" "m_speed_OK s" "m_pos_OK s" "m_psi_OK s"
  shows "\<exists>coeffs fraction_steps_OK xv yv.
           actuate h s (Solve h [0, 0, 0, polyeval h coeffs 0, - arctan (coeffs ! 1)] coeffs
                          (new_ref_v (m_ref_v_alpha s) (m_ref_v s) fraction_steps_OK))
             xv yv coeffs (pos_x_lat h s) (pos_y_lat h s) (sin (psi_lat h s)) (cos (psi_lat h s))
           = Inr (s', published)"
  using assms
  by (auto simp: loop_body_def Let_def split: sum.splits prod.splits if_splits)

text \<open>
  Claim C6. On an iteration with all four inputs ready that publishes, the actuator
  commands are \<open>(CENTER, 0)\<close> when the go flag is false at its start, whatever the solver
  returned; when the go flag is true they are the clipped \<open>CENTER - delta\<close> and the rpm
  computed from the solver's \<open>(delta, v)\<close>.
\<close>

theorem go_gating:
  assumes "loop_body h s = Inr (s', published)"
    and "m_pts_OK s" "m_speed_OK s" "m_pos_OK s" "m_psi_OK s"
  shows "(\<not> m_go_flag s \<longrightarrow>
            actuator_publications published =
              [(Commands_servo_position, Float64 (CENTER_IN_DZIK h)),
               (Commands_motor_speed, Float64 0)])
         \<and> (m_go_flag s \<longrightarrow>
              (\<exists>state coeffs v.
                 actuator_publications published =
                   [(Commands_servo_position,
                       Float64 (clip_steer (CENTER_IN_DZIK h - Solve h state coeffs v ! 0))),
                    (Commands_motor_speed,
                       Float64 (rpm_of_speed h (Solve h state coeffs v ! 1)))]))"
proof -
  from loop_body_actuate [OF assms] obtain coeffs xv yv state v
    where act: "actuate h s (Solve h state coeffs v) xv yv coeffs (pos_x_lat h s) (pos_y_lat h s)
                  (sin (psi_lat h s)) (cos (psi_lat h s)) = Inr (s', published)"
    by blast
  note c = actuate_commands [OF act]
  show ?thesis
  proof (cases "m_go_flag s")
    case False
    with c show ?thesis by (simp add: actuators_def)
  next
    case True
    with c have "actuator_publications published =
                   [(Commands_servo_position,
                       Float64 (clip_steer (CENTER_IN_DZIK h - Solve h state coeffs v ! 0))),
                    (Commands_motor_speed,
                       Float64 (rpm_of_speed h (Solve h state coeffs v ! 1)))]"
      by (simp add: actuators_def Let_def)
    with True show ?thesis by blast
  qed
qed

text \<open>
  The example track with a solver that returns \<open>(1/10, 2)\<close>: with the go flag down the
  commands are \<open>(1/2, 0)\<close>, with the go flag up they are \<open>(2/5, 12000/pi)\<close>.
\<close>

theorem go_gating_witness:
  "(loop_body (track_h (\<lambda>state coeffs v. [1 / 10, 2])) (track_node\<lparr> m_go_flag := False \<rparr>)
      = Inr (track_node\<lparr> m_go_flag := False, m_steer := 1 / 2, m_rpm := 0 \<rparr>,
             [(Commands_servo_position, Float64 (1 / 2)), (Commands_motor_speed, Float64 0)])
    \<and> m_pts_OK (track_node\<lparr> m_go_flag := False \<rparr>) \<and> m_speed_OK (track_node\<lparr> m_go_flag := False \<rparr>)
    \<and> m_pos_OK (track_node\<lparr> m_go_flag := False \<rparr>) \<and> m_psi_OK (track_node\<lparr> m_go_flag := False \<rparr>)
    \<and> \<not> m_go_flag (track_node\<lparr> m_go_flag := False \<rparr>)
    \<and> actuator_publications
          [(Commands_servo_position, Float64 (1 / 2)), (Commands_motor_speed, Float64 0)]
        = [(Commands_servo_position,
              Float64 (CENTER_IN_DZIK (track_h (\<lambda>state coeffs v. [1 / 10, 2])))),
           (Commands_motor_speed, Float64 0)])
   \<and> (loop_body (track_h (\<lambda>state coeffs v. [1 / 10, 2])) (track_node\<lparr> m_go_flag := True \<rparr>)
        = Inr (track_node\<lparr> m_go_flag := True, m_steer := 2 / 5, m_rpm := 12000 / pi \<rparr>,
               [(Commands_servo_position, Float64 (2 / 5)),
                (Commands_motor_speed, Float64 (12000 / pi))])
      \<and> m_pts_OK (track_node\<lparr> m_go_flag := True \<rparr>) \<and> m_speed_OK (track_node\<lparr> m_go_flag := True \<rparr>)
      \<and> m_pos_OK (track_node\<lparr> m_go_flag := True \<rparr>) \<and> m_psi_OK (track_node\<lparr> m_go_flag := True \<rparr>)
      \<and> m_go_flag (track_node\<lparr> m_go_flag := True \<rparr>)
      \<and> actuator_publications
            [(Commands_servo_position, Float64 (2 / 5)),
             (Commands_motor_speed, Float64 (12000 / pi))]
          = [(Commands_servo_position, Float64 (clip_steer (1 / 2 - 1 / 10))),
             (Commands_motor_speed,
                Float64 (rpm_of_speed (track_h (\<lambda>state coeffs v. [1 / 10, 2])) 2))])"
proof -
  have down: "loop_body (track_h (\<lambda>state coeffs v. [1 / 10, 2])) (track_node\<lparr> m_go_flag := False \<rparr>)
     = Inr (track_node\<lparr> m_go_flag := False, m_steer := 1 / 2, m_rpm := 0 \<rparr>,
            [(Commands_servo_position, Float64 (1 / 2)), (Commands_motor_speed, Float64 0)])"
    using track_loop_body [of "1 / 10" 2 False] by simp
  have up: "loop_body (track_h (\<lambda>state coeffs v. [1 / 10, 2])) (track_node\<lparr> m_go_flag := True \<rparr>)
     = Inr (track_node\<lparr> m_go_flag := True, m_steer := 2 / 5, m_rpm := 12000 / pi \<rparr>,
            [(Commands_servo_position, Float64 (2 / 5)),
             (Commands_motor_speed, Float64 (12000 / pi))])"
    using track_loop_body [of "1 / 10" 2 True] by (simp add: clip_steer_def)
  from go_gating [OF down track_node_ready] go_gating [OF up track_node_ready]
    down up track_node_ready [of False] track_node_ready [of True]
  show ?thesis
    by (simp add: track_h_fields)
qed

text \<open>
  Claim C1, as amended. On an iteration with all four inputs ready that publishes, with
  \<open>CENTER\<close> in \<open>[0, 1]\<close> and a positive wheel radius: the steer command is in \<open>[0, 1]\<close>;
  the rpm command is 0 when the go flag is false; when the go flag is true it is
  \<open>v / 2 / pi / WHEEL_RADIUS * 60 * 10\<close> for the solver's \<open>v\<close>, and it is non-negative
  exactly when that \<open>v\<close> is.
\<close>

theorem published_commands_range:
  assumes "loop_body h s = Inr (s', published)"
    and "m_pts_OK s" "m_speed_OK s" "m_pos_OK s" "m_psi_OK s"
    and "0 \<le> CENTER_IN_DZIK h" "CENTER_IN_DZIK h \<le> 1" "0 < WHEEL_RADIUS_IN_DZIK h"
  shows "\<exists>steer_cmd rpm_cmd.
           actuator_publications published =
             [(Commands_servo_position, Float64 steer_cmd), (Commands_motor_speed, Float64 rpm_cmd)]
           \<and> 0 \<le> steer_cmd \<and> steer_cmd \<le> 1
           \<and> (\<not> m_go_flag s \<longrightarrow> rpm_cmd = 0)
           \<and> (m_go_flag s \<longrightarrow>
                (\<exists>state coeffs v.
                   rpm_cmd = Solve h state coeffs v ! 1 / 2 / pi / WHEEL_RADIUS_IN_DZIK h * 60 * 10
                   \<and> (0 \<le> rpm_cmd \<longleftrightarrow> 0 \<le> Solve h state coeffs v ! 1)))"
proof -
  from loop_body_actuate [OF assms(1-5)] obtain coeffs xv yv state v
    where act: "actuate h s (Solve h state coeffs v) xv yv coeffs (pos_x_lat h s) (pos_y_lat h s)
                  (sin (psi_lat h s)) (cos (psi_lat h s)) = Inr (s', published)"
    by blast
  note c = actuate_commands [OF act]
  have clip: "0 \<le> clip_steer x \<and> clip_steer x \<le> 1" for x
    by (simp add: clip_steer_def)
  have sign: "0 \<le> rpm_of_speed h w \<longleftrightarrow> 0 \<le> w" for w
  proof -
    have pos: "0 < pi * WHEEL_RADIUS_IN_DZIK h"
      using assms(8) by simp
    have "rpm_of_speed h w = w * 300 / (pi * WHEEL_RADIUS_IN_DZIK h)"
      by (simp add: rpm_of_speed_def)
    then show ?thesis
      using pos_le_divide_eq [OF pos, of 0 "w * 300"] by simp
  qed
  show ?thesis
  proof (cases "m_go_flag s")
    case False
    with c assms(6,7) show ?thesis by (simp add: actuators_def)
  next
    case True
    let ?w = "Solve h state coeffs v ! 1"
    from True c have pubs: "actuator_publications published =
        [(Commands_servo_position, Float64 (clip_steer (CENTER_IN_DZIK h - Solve h state coeffs v ! 0))),
         (Commands_motor_speed, Float64 (rpm_of_speed h ?w))]"
      by (simp add: actuators_def Let_def)
    have "rpm_of_speed h ?w = ?w / 2 / pi / WHEEL_RADIUS_IN_DZIK h * 60 * 10
          \<and> (0 \<le> rpm_of_speed h ?w \<longleftrightarrow> 0 \<le> ?w)"
      using sign [of ?w] by (simp add: rpm_of_speed_def)
    with True pubs clip show ?thesis by blast
  qed
qed

text \<open>
  The example track with the go flag up and a solver that returns \<open>(- 3/4, 2)\<close>: the
  steer \<open>1/2 + 3/4\<close> is clipped to 1, the rpm command is \<open>12000/pi\<close>.
\<close>

theorem published_commands_range_witness:
  "loop_body (track_h (\<lambda>state coeffs v. [- 3 / 4, 2])) (track_node\<lparr> m_go_flag := True \<rparr>)
     = Inr (track_node\<lparr> m_go_flag := True, m_steer := 1, m_rpm := 12000 / pi \<rparr>,
            [(Commands_servo_position, Float64 1), (Commands_motor_speed, Float64 (12000 / pi))])
   \<and> m_pts_OK (track_node\<lparr> m_go_flag := True \<rparr>) \<and> m_speed_OK (track_node\<lparr> m_go_flag := True \<rparr>)
   \<and> m_pos_OK (track_node\<lparr> m_go_flag := True \<rparr>) \<and> m_psi_OK (track_node\<lparr> m_go_flag := True \<rparr>)
   \<and> 0 \<le> CENTER_IN_DZIK (track_h (\<lambda>state coeffs v. [- 3 / 4, 2]))
   \<and> CENTER_IN_DZIK (track_h (\<lambda>state coeffs v. [- 3 / 4, 2])) \<le> 1
   \<and> 0 < WHEEL_RADIUS_IN_DZIK (track_h (\<lambda>state coeffs v. [- 3 / 4, 2]))
   \<and> m_go_flag (track_node\<lparr> m_go_flag := True \<rparr>)
   \<and> (\<exists>steer_cmd rpm_cmd.
         actuator_publications
           [(Commands_servo_position, Float64 1), (Commands_motor_speed, Float64 (12000 / pi))]
         = [(Commands_servo_position, Float64 steer_cmd), (Commands_motor_speed, Float64 rpm_cmd)]
         \<and> 0 \<le> steer_cmd \<and> steer_cmd \<le> 1 \<and> 0 \<le> rpm_cmd)"
proof -
  let ?h = "track_h (\<lambda>state coeffs v. [- 3 / 4, 2])"
  have run: "loop_body ?h (track_node\<lparr> m_go_flag := True \<rparr>)
     = Inr (track_node\<lparr> m_go_flag := True, m_steer := 1, m_rpm := 12000 / pi \<rparr>,
            [(Commands_servo_position, Float64 1), (Commands_motor_speed, Float64 (12000 / pi))])"
    using track_loop_body [of "- 3 / 4" 2 True] by (simp add: clip_steer_def)
  have platform: "0 \<le> CENTER_IN_DZIK ?h" "CENTER_IN_DZIK ?h \<le> 1" "0 < WHEEL_RADIUS_IN_DZIK ?h"
    by (simp_all add: track_h_fields)
  from published_commands_range [OF run track_node_ready platform]
    run track_node_ready [of True] platform
  show ?thesis
    by (auto simp add: track_h_fields)
qed

text \<open>
  Against claim C1 as stated: on the example track with the go flag up, a solver that
  returns the speed \<open>- 1\<close> gets the negative rpm command \<open>- 6000/pi\<close> published.
\<close>

theorem negative_rpm_published:
  "loop_body (track_h (\<lambda>state coeffs v. [0, - 1])) track_node
     = Inr (track_node\<lparr> m_steer := 1 / 2, m_rpm := - (6000 / pi) \<rparr>,
            [(Commands_servo_position, Float64 (1 / 2)),
             (Commands_motor_speed, Float64 (- (6000 / pi)))])
   \<and> m_go_flag track_node \<and> - (6000 / pi) < (0::real)"
  using track_loop_body [of 0 "- 1" True]
  by (simp add: clip_steer_def track_node_def)

text \<open>
  Claim C2, as amended. An iteration that finds one of the four readiness flags false
  publishes nothing and leaves the node as it is.
\<close>

theorem skipped_tick_publishes_nothing:
  assumes "\<not> (m_pts_OK s \<and> m_speed_OK s \<and> m_pos_OK s \<and> m_psi_OK s)"
  shows "loop_body h s = Inr (s, [])"
  using assms by (rule loop_body_skip)

theorem skipped_tick_publishes_nothing_witness:
  "\<not> (m_pts_OK (track_node\<lparr> m_psi_OK := False \<rparr>) \<and> m_speed_OK (track_node\<lparr> m_psi_OK := False \<rparr>)
       \<and> m_pos_OK (track_node\<lparr> m_psi_OK := False \<rparr>) \<and> m_psi_OK (track_node\<lparr> m_psi_OK := False \<rparr>))
   \<and> loop_body (track_h (\<lambda>state coeffs v. [1 / 10, 2])) (track_node\<lparr> m_psi_OK := False \<rparr>)
       = Inr (track_node\<lparr> m_psi_OK := False \<rparr>, [])"
  using skipped_tick_publishes_nothing
          [of "track_node\<lparr> m_psi_OK := False \<rparr>" "track_h (\<lambda>state coeffs v. [1 / 10, 2])"]
  by simp

text \<open>
  Against claim C2 as stated: the example node before its centre line has arrived. The
  iteration is skipped and its list of publications is empty, so the pair \<open>(CENTER, 0)\<close>
  is not published.
\<close>

theorem skipped_tick_no_safe_stop:
  "\<not> m_pts_OK (track_node\<lparr> m_pts_x := [], m_pts_y := [], m_pts_OK := False \<rparr>)
   \<and> loop_body (track_h (\<lambda>state coeffs v. [1 / 10, 2]))
        (track_node\<lparr> m_pts_x := [], m_pts_y := [], m_pts_OK := False \<rparr>)
       = Inr (track_node\<lparr> m_pts_x := [], m_pts_y := [], m_pts_OK := False \<rparr>, [])
   \<and> actuator_publications []
       \<noteq> [(Commands_servo_position, Float64 (CENTER_IN_DZIK (track_h (\<lambda>state coeffs v. [1 / 10, 2])))),
          (Commands_motor_speed, Float64 0)]"
  by (simp add: loop_body_def actuator_publications_def)

subsection \<open>Latency projection\<close>

lemma dispatch_keeps_steer:
  "m_steer (dispatch c s) = m_steer s \<and> m_latency (dispatch c s) = m_latency s"
  by (cases c)
     (simp_all add: centerline_cb_def signal_go_cb_def odom_cb_def pf_pose_odom_cb_def Let_def)

lemma spinOnce_keeps_steer:
  "m_steer (spinOnce queue s) = m_steer s \<and> m_latency (spinOnce queue s) = m_latency s"
  unfolding spinOnce_def
  by (induction queue arbitrary: s) (simp_all add: dispatch_keeps_steer)

text \<open>
  The heading that the next iteration projects: the servo command of this iteration
  stands where the steering angle of the kinematic model belongs.
\<close>

lemma next_psi_lat:
  assumes "loop_body h s = Inr (s', published)"
    and "m_pts_OK s" "m_speed_OK s" "m_pos_OK s" "m_psi_OK s"
  shows "\<exists>state coeffs v.
           psi_lat h (spinOnce queue s')
           = m_psi (spinOnce queue s')
             - m_latency s * (m_speed (spinOnce queue s')
                 * (if m_go_flag s then clip_steer (CENTER_IN_DZIK h - Solve h state coeffs v ! 0)
                    else CENTER_IN_DZIK h) / Lf h)"
proof -
  from loop_body_actuate [OF assms] obtain coeffs xv yv state v
    where act: "actuate h s (Solve h state coeffs v) xv yv coeffs (pos_x_lat h s) (pos_y_lat h s)
                  (sin (psi_lat h s)) (cos (psi_lat h s)) = Inr (s', published)"
    by blast
  from actuate_commands [OF act]
  have steer: "m_steer s' = (if m_go_flag s then clip_steer (CENTER_IN_DZIK h - Solve h state coeffs v ! 0)
                            else CENTER_IN_DZIK h)"
    and s': "s' = s\<lparr> m_steer := m_steer s', m_rpm := m_rpm s' \<rparr>"
    by (auto simp add: actuators_def Let_def split: if_splits)
  from s' have "m_latency s' = m_latency s"
    by (metis node.select_convs(13) node.surjective node.update_convs(11,12))
  with steer spinOnce_keeps_steer [of queue s'] show ?thesis
    by (auto simp add: psi_lat_def)
qed

text \<open>
  Claim C3 fails on the code. The car at rest on the example track, latency 0.1 s, go flag
  up; the solver returns the steering angle \<open>delta = 0.1\<close> rad, the servo command \<open>0.4\<close> is
  published and stored in \<^verbatim>\<open>m_steer\<close>; then the odometry reports 1 m/s. The next iteration
  projects the heading \<open>0 - 0.1 * (1 * 0.4 / Lf) = - 0.16\<close>, where the claim's \<open>delta_last\<close>
  \<open>= 0.1\<close> gives \<open>- 0.04\<close>.
\<close>

theorem latency_projection_uses_servo_command:
  "loop (track_h (\<lambda>state coeffs v. [1 / 10, 2]))
        (track_node\<lparr> m_speed := 0, m_latency := 1 / 10 \<rparr>) [[Odom 1]]
     = Inr (track_node\<lparr> m_speed := 1, m_steer := 2 / 5, m_rpm := 12000 / pi, m_latency := 1 / 10 \<rparr>,
            [[(Commands_servo_position, Float64 (2 / 5)),
              (Commands_motor_speed, Float64 (12000 / pi))]])
   \<and> psi_lat (track_h (\<lambda>state coeffs v. [1 / 10, 2]))
         (track_node\<lparr> m_speed := 1, m_steer := 2 / 5, m_rpm := 12000 / pi, m_latency := 1 / 10 \<rparr>)
       = - (4 / 25)
   \<and> m_psi track_node - 1 / 10 * (1 * (1 / 10) / Lf (track_h (\<lambda>state coeffs v. [1 / 10, 2])))
       = - (1 / 25)"
  by (simp add: loop_body_def track_node_def psi_lat_def pos_x_lat_def pos_y_lat_def
        track_find_closest track_closest_pts track_xyvals new_ref_v_def actuate_def
        actuators_def rpm_of_speed_def clip_steer_def track_h_fields
        spinOnce_def odom_cb_def)

subsection \<open>The fit window\<close>

lemma uint_less_of_unat_less:
  assumes "unat (w :: size_t) < 2147483648"
  shows "uint w < 2147483648"
proof -
  from assms have "int (unat w) < int 2147483648"
    by (simp only: of_nat_less_iff)
  then show ?thesis
    by simp
qed

lemma int_of_size_t_small:
  assumes "unat w < 2147483648"
  shows "int_of_size_t w = uint w"
proof -
  have "sint (ucast w :: 32 word) = signed_take_bit 31 (uint w)"
    by (simp add: signed_ucast_eq)
  also have "\<dots> = uint w"
  proof (rule signed_take_bit_int_eq_self)
    have "- (2 ^ 31) \<le> (0::int)"
      by simp
    also have "0 \<le> uint w"
      by simp
    finally show "- (2 ^ 31) \<le> uint w" .
    show "uint w < 2 ^ 31"
      using uint_less_of_unat_less [OF assms] by simp
  qed
  finally show ?thesis
    by (simp add: int_of_size_t_def)
qed

lemma unat_size_t_of_nat: "n < 2147483648 \<Longrightarrow> unat (word_of_nat n :: size_t) = n"
  by (simp add: unat_of_nat)

text \<open>The index that the window loop computes, as arithmetic on integers.\<close>

lemma window_idx_eq:
  assumes "0 < n" "n < 2147483648"
  shows "window_idx h k i n = ((k + int i * STEP_POLY h) mod 2 ^ 64) mod int n"
proof -
  let ?s = "size_t_of_int k + word_of_nat i * size_t_of_int (STEP_POLY h)"
  have sum: "?s = word_of_int (k + int i * STEP_POLY h)"
    by (simp add: size_t_of_int_def)
  have "unat (?s mod word_of_nat n) = unat ?s mod n"
    using assms by (simp add: unat_mod unat_size_t_of_nat)
  then have "unat (?s mod word_of_nat n) < n"
    using assms by simp
  then have small: "unat (?s mod word_of_nat n) < 2147483648"
    using assms by linarith
  have "uint (word_of_nat n :: size_t) = int n"
    using unat_size_t_of_nat [OF assms(2)] by (simp only: uint_nat)
  then have "uint (?s mod word_of_nat n) = uint ?s mod int n"
    by (simp add: uint_mod)
  also have "uint ?s = (k + int i * STEP_POLY h) mod 2 ^ 64"
    by (simp only: sum uint_word_of_int) simp
  finally show ?thesis
    using int_of_size_t_small [OF small] by (simp add: window_idx_def)
qed

lemma window_idx_range:
  assumes "0 < n" "n < 2147483648"
  shows "0 \<le> window_idx h k i n \<and> nat (window_idx h k i n) < n"
  using assms by (simp add: window_idx_eq nat_less_iff)


lemma word_of_nat_size_nonzero:
  assumes "0 < n" "n < 2147483648"
  shows "(word_of_nat n :: size_t) \<noteq> 0"
proof
  assume "(word_of_nat n :: size_t) = 0"
  then have "unat (word_of_nat n :: size_t) = 0"
    by simp
  with unat_size_t_of_nat [OF assms(2)] assms(1) show False
    by simp
qed

lemma closest_pts_from_eq:
  assumes "0 < length pts_x" "length pts_x = length pts_y" "length pts_x < 2147483648"
  shows "closest_pts_from h pts_x pts_y k n i ax ay
         = Inr (ax @ map (\<lambda>j. pts_x ! nat (window_idx h k j (length pts_x))) [i..<n],
                ay @ map (\<lambda>j. pts_y ! nat (window_idx h k j (length pts_x))) [i..<n])"
proof (induction "n - i" arbitrary: i ax ay)
  case 0
  then show ?case
    by (simp add: closest_pts_from.simps [of h pts_x pts_y k n i])
next
  case (Suc d)
  then have less: "i < n" and d: "d = n - (i + 1)"
    by simp_all
  note nz = word_of_nat_size_nonzero [OF assms(1,3)]
  note rg = window_idx_range [OF assms(1,3), of h k i]
  have "closest_pts_from h pts_x pts_y k n i ax ay
        = closest_pts_from h pts_x pts_y k n (i + 1)
            (ax @ [pts_x ! nat (window_idx h k i (length pts_x))])
            (ay @ [pts_y ! nat (window_idx h k i (length pts_x))])"
    using less nz rg assms(2)
    by (subst closest_pts_from.simps) (simp add: Let_def)
  also note Suc.hyps(1) [OF d]
  finally show ?case
    using less by (simp add: upt_conv_Cons)
qed

lemma closest_pts_eq:
  assumes "0 < length pts_x" "length pts_x = length pts_y" "length pts_x < 2147483648"
  shows "closest_pts h pts_x pts_y k n
         = Inr (map (\<lambda>j. pts_x ! nat (window_idx h k j (length pts_x))) [0..<n],
                map (\<lambda>j. pts_y ! nat (window_idx h k j (length pts_x))) [0..<n])"
  using closest_pts_from_eq [OF assms, of h k n 0 "[]" "[]"] by (simp add: closest_pts_def)

lemma closest_pts_empty:
  "0 < n \<Longrightarrow> closest_pts h [] pts_y k n = Inl DivisionByZero"
  by (simp add: closest_pts_def closest_pts_from.simps [of h "[]" pts_y k n 0])

lemma find_closest_from_returns:
  assumes "length pts_x \<le> length pts_y"
  shows "\<exists>idx. find_closest_from pts_x pts_y pos_x pos_y i closest_idx closest_dist = Inr idx"
proof (induction "length pts_x - i" arbitrary: i closest_idx closest_dist)
  case 0
  then show ?case
    by (simp add: find_closest_from.simps [of pts_x pts_y pos_x pos_y i])
next
  case (Suc d)
  then have less: "i < length pts_x" and d: "d = length pts_x - (i + 1)"
    by simp_all
  from Suc.hyps(1) [OF d] less assms show ?case
    by (subst find_closest_from.simps) (simp add: Let_def)
qed

lemma find_closest_empty: "find_closest [] [] pos_x pos_y = Inr (- 1)"
  by (simp add: find_closest_def find_closest_from.simps)


text \<open>Where the sum is not negative, the index is the one of a cyclic polyline.\<close>

lemma window_idx_nonneg:
  assumes "0 < n" "n < 2147483648" "0 \<le> k + int i * STEP_POLY h" "k + int i * STEP_POLY h < 2 ^ 64"
  shows "window_idx h k i n = (k + int i * STEP_POLY h) mod int n"
  using assms by (simp add: window_idx_eq)

text \<open>
  Claim C10. The centre line callback sets the ready flag also for an empty polyline; the
  next iteration (other inputs ready, at least one window step) then takes a remainder
  modulo the size 0 in the window loop. For a non-empty centre line (of fewer than \<open>2^31\<close>
  points) the window loop reaches no error, whatever the start index and the step count.
\<close>

theorem empty_centerline_breaks_window:
  "m_pts_OK (centerline_cb [] s) \<and> m_pts_x (centerline_cb [] s) = []
   \<and> (m_speed_OK s \<and> m_pos_OK s \<and> m_psi_OK s \<and> 0 < m_num_steps_poly s
        \<longrightarrow> loop_body h (centerline_cb [] s) = Inl DivisionByZero)
   \<and> (points \<noteq> [] \<and> length points < 2147483648
        \<longrightarrow> (\<exists>closest_pts_x closest_pts_y.
               closest_pts h (m_pts_x (centerline_cb points s)) (m_pts_y (centerline_cb points s))
                 closest_idx n = Inr (closest_pts_x, closest_pts_y)
               \<and> length closest_pts_x = n \<and> length closest_pts_y = n))"
proof (intro conjI impI)
  show "m_pts_OK (centerline_cb [] s)" "m_pts_x (centerline_cb [] s) = []"
    by (simp_all add: centerline_cb_def)
next
  assume "m_speed_OK s \<and> m_pos_OK s \<and> m_psi_OK s \<and> 0 < m_num_steps_poly s"
  then show "loop_body h (centerline_cb [] s) = Inl DivisionByZero"
    by (simp add: loop_body_def centerline_cb_def find_closest_empty closest_pts_empty)
next
  assume "points \<noteq> [] \<and> length points < 2147483648"
  then have "0 < length (map fst points)" "length (map fst points) = length (map snd points)"
    "length (map fst points) < 2147483648"
    by simp_all
  from closest_pts_eq [OF this, of h closest_idx n]
  show "\<exists>closest_pts_x closest_pts_y.
          closest_pts h (m_pts_x (centerline_cb points s)) (m_pts_y (centerline_cb points s))
            closest_idx n = Inr (closest_pts_x, closest_pts_y)
          \<and> length closest_pts_x = n \<and> length closest_pts_y = n"
    by (simp add: centerline_cb_def)
qed

theorem empty_centerline_breaks_window_witness:
  "m_speed_OK track_node \<and> m_pos_OK track_node \<and> m_psi_OK track_node
   \<and> 0 < m_num_steps_poly track_node
   \<and> m_pts_OK (centerline_cb [] track_node)
   \<and> loop_body (track_h (\<lambda>state coeffs v. [1 / 10, 2])) (centerline_cb [] track_node)
       = Inl DivisionByZero
   \<and> [(0, 0), (1, 0)] \<noteq> ([] :: (real \<times> real) list)
   \<and> length [(0, 0), (1, 0) :: real \<times> real] < 2147483648
   \<and> closest_pts (track_h (\<lambda>state coeffs v. [1 / 10, 2]))
         (m_pts_x (centerline_cb [(0, 0), (1, 0)] track_node))
         (m_pts_y (centerline_cb [(0, 0), (1, 0)] track_node)) (- 1) 3
       = Inr ([1, 1, 1], [0, 0, 0])"
proof -
  have "closest_pts (track_h (\<lambda>state coeffs v. [1 / 10, 2])) [0, 1] [0, 0] (- 1) 3
        = Inr ([1, 1, 1], [0, 0, 0])"
    by (simp add: closest_pts_def closest_pts_from.simps window_idx_def int_of_size_t_def
          size_t_of_int_def track_h_fields)
  with empty_centerline_breaks_window
         [of track_node "track_h (\<lambda>state coeffs v. [1 / 10, 2])" "[(0, 0), (1, 0)]" "- 1" 3]
  show ?thesis
    by (simp add: track_node_def centerline_cb_def)
qed

text \<open>
  Claim C4 fails on the code. The car at the first of ten centre line points, one step
  back, stride 2, three steps: the start index \<open>0 - 1\<close> becomes \<open>2^64 - 1\<close> in \<^verbatim>\<open>size_t\<close>,
  and the loop reads the points 5, 1, 3, where the indices \<open>(- 1 + 2 i) mod 10\<close> of a cyclic
  polyline are 9, 1, 3.
\<close>

theorem window_before_start_not_cyclic:
  "find_closest [0, 1, 2, 3, 4, 5, 6, 7, 8, 9] [0, 0, 0, 0, 0, 0, 0, 0, 0, 0] 0 0 = Inr 0
   \<and> closest_pts (track_h (\<lambda>state coeffs v. [1 / 10, 2]))
         [0, 1, 2, 3, 4, 5, 6, 7, 8, 9] [0, 0, 0, 0, 0, 0, 0, 0, 0, 0]
         (0 - NUM_STEPS_BACK (track_h (\<lambda>state coeffs v. [1 / 10, 2]))) 3
       = Inr ([5, 1, 3], [0, 0, 0])
   \<and> map (\<lambda>i. [0, 1, 2, 3, 4, 5, 6, 7, 8, 9 :: real]
                 ! nat ((0 - NUM_STEPS_BACK (track_h (\<lambda>state coeffs v. [1 / 10, 2]))
                         + int i * STEP_POLY (track_h (\<lambda>state coeffs v. [1 / 10, 2]))) mod 10))
       [0, 1, 2]
      = [9, 1, 3]"
  by (simp add: find_closest_def find_closest_from.simps closest_pts_def closest_pts_from.simps
        window_idx_def int_of_size_t_def size_t_of_int_def track_h_fields)

subsection \<open>Transform and stabilizer\<close>

text \<open>The points that the stabilizer appends are evenly spaced.\<close>

lemma extrapolated_tail:
  fixes xv :: "real list" and d :: real
  assumes "2 \<le> i" "length xv = i" "i \<le> n"
  defines "xs \<equiv> xv @ map (\<lambda>sub_i. xv ! (i - 1) + real sub_i * d) [1..<n - i + 1]"
  shows "length xs = n"
    and "\<And>j. j < i \<Longrightarrow> xs ! j = xv ! j"
    and "\<And>j. i \<le> j \<Longrightarrow> j < n \<Longrightarrow> xs ! j - xs ! (j - 1) = d"
proof -
  show "length xs = n"
    using assms(1-3) by (simp add: xs_def del: upt_Suc)
  show low: "xs ! j = xv ! j" if "j < i" for j
    using that assms(1-3) by (simp add: xs_def nth_append del: upt_Suc)
  have high: "xs ! j = xv ! (i - 1) + real (j - i + 1) * d" if "i \<le> j" "j < n" for j
  proof -
    have "xs ! j = map (\<lambda>sub_i. xv ! (i - 1) + real sub_i * d) [1..<n - i + 1] ! (j - i)"
      using that assms(1-3) by (simp add: xs_def nth_append del: upt_Suc)
    also have "\<dots> = xv ! (i - 1) + real (1 + (j - i)) * d"
      using that by (subst nth_map) (simp_all del: upt_Suc)
    finally show ?thesis
      by (simp add: add.commute)
  qed
  show "xs ! j - xs ! (j - 1) = d" if "i \<le> j" "j < n" for j
  proof (cases "j = i")
    case True
    from assms(1) have "i - 1 < i"
      by simp
    from low [OF this] True have "xs ! (j - 1) = xv ! (i - 1)"
      by simp
    with high [OF that] True show ?thesis
      by simp
  next
    case False
    with that have "i \<le> j - 1" "j - 1 < n"
      by simp_all
    from high [OF this] high [OF that] False that show ?thesis
      by (simp add: algebra_simps)
  qed
qed


text \<open>One iteration of the loop, once the two vectors hold \<open>i\<close> values each.\<close>

lemma xyvals_from_step:
  assumes "i < n" "length xv = i" "length yv = i"
    and "to_car_frame (cx ! i) (cy ! i) px py sn cs = (x_rot, y_rot)"
  shows "xyvals_from h degree n cx cy px py sn cs i xv yv =
     (if \<not> (i < length cx \<and> i < length cy) then Inl OutOfRange
      else if degree < i \<and> x_rot - xv ! (i - 1) < X_DELTA_MIN_VALUE h then
        (if 2 \<le> i then
           Inr (xv @ map (\<lambda>sub_i. xv ! (i - 1)
                            + real sub_i * ((xv ! (i - 1) - xv ! (i - 2)) / real (n - i + 1)))
                       [1..<n - i + 1],
                yv @ map (\<lambda>sub_i. yv ! (i - 1)
                            + real sub_i * ((yv ! (i - 1) - yv ! (i - 2)) / real (n - i + 1)))
                       [1..<n - i + 1],
                real (i + 1) / real n)
         else Inl OutOfRange)
      else xyvals_from h degree n cx cy px py sn cs (i + 1) (xv @ [x_rot]) (yv @ [y_rot]))"
  using assms
  by (subst xyvals_from.simps) (auto simp add: Let_def simp del: upt_Suc)

lemma xyvals_from_spacing:
  assumes "xyvals_from h degree n cx cy px py sn cs i xv yv = Inr (xs, ys, f)"
    and "length xv = i" "length yv = i" "i \<le> n"
    and "\<And>j. j < i \<Longrightarrow> (xv ! j, yv ! j) = to_car_frame (cx ! j) (cy ! j) px py sn cs"
    and "\<And>j. degree < j \<Longrightarrow> j < i \<Longrightarrow> X_DELTA_MIN_VALUE h \<le> xv ! j - xv ! (j - 1)"
  shows "length xs = n \<and> length ys = n
    \<and> (\<exists>b. i \<le> b \<and> b \<le> n
          \<and> (\<forall>j. j < b \<longrightarrow> (xs ! j, ys ! j) = to_car_frame (cx ! j) (cy ! j) px py sn cs)
          \<and> (\<forall>j. degree < j \<and> j < b \<longrightarrow> X_DELTA_MIN_VALUE h \<le> xs ! j - xs ! (j - 1))
          \<and> (if b = n then f = 1
              else degree < b \<and> 2 \<le> b \<and> f = real (b + 1) / real n
                \<and> fst (to_car_frame (cx ! b) (cy ! b) px py sn cs) - xs ! (b - 1)
                     < X_DELTA_MIN_VALUE h
                \<and> (\<forall>j. b \<le> j \<and> j < n \<longrightarrow>
                       xs ! j - xs ! (j - 1) = (xs ! (b - 1) - xs ! (b - 2)) / real (n - b + 1)
                     \<and> ys ! j - ys ! (j - 1) = (ys ! (b - 1) - ys ! (b - 2)) / real (n - b + 1))))"
  using assms
proof (induction "n - i" arbitrary: i xv yv)
  case 0
  then have "i = n"
    by simp
  with "0.prems"(1) have "xs = xv" "ys = yv" "f = 1"
    by (simp_all add: xyvals_from.simps [of h degree n cx cy px py sn cs n])
  with "0.prems" \<open>i = n\<close> show ?case
    by auto
next
  case (Suc d)
  then have less: "i < n" and d: "d = n - (i + 1)"
    by simp_all
  obtain x_rot y_rot where rot: "to_car_frame (cx ! i) (cy ! i) px py sn cs = (x_rot, y_rot)"
    by (cases "to_car_frame (cx ! i) (cy ! i) px py sn cs")
  note step = xyvals_from_step [OF less Suc.prems(2,3) rot, of h degree]
  show ?case
  proof (cases "degree < i \<and> x_rot - xv ! (i - 1) < X_DELTA_MIN_VALUE h")
    case True
    with step Suc.prems(1) have two: "2 \<le> i"
      and xs: "xs = xv @ map (\<lambda>sub_i. xv ! (i - 1)
                            + real sub_i * ((xv ! (i - 1) - xv ! (i - 2)) / real (n - i + 1)))
                       [1..<n - i + 1]"
      and ys: "ys = yv @ map (\<lambda>sub_i. yv ! (i - 1)
                            + real sub_i * ((yv ! (i - 1) - yv ! (i - 2)) / real (n - i + 1)))
                       [1..<n - i + 1]"
      and f: "f = real (i + 1) / real n"
      by (auto split: if_splits)
    note tx = extrapolated_tail [OF two Suc.prems(2) Suc.prems(4),
                 where d = "(xv ! (i - 1) - xv ! (i - 2)) / real (n - i + 1)", folded xs]
    note ty = extrapolated_tail [OF two Suc.prems(3) Suc.prems(4),
                 where d = "(yv ! (i - 1) - yv ! (i - 2)) / real (n - i + 1)", folded ys]
    from two have i1: "i - 1 < i" and i2: "i - 2 < i"
      by simp_all
    have low_x: "xs ! j = xv ! j" if "j < i" for j
      using tx(2) [OF that] .
    have low_y: "ys ! j = yv ! j" if "j < i" for j
      using ty(2) [OF that] .
    have car: "\<forall>j. j < i \<longrightarrow> (xs ! j, ys ! j) = to_car_frame (cx ! j) (cy ! j) px py sn cs"
      using low_x low_y Suc.prems(5) by simp
    have gap: "\<forall>j. degree < j \<and> j < i \<longrightarrow> X_DELTA_MIN_VALUE h \<le> xs ! j - xs ! (j - 1)"
    proof (intro allI impI)
      fix j
      assume j: "degree < j \<and> j < i"
      then have "j - 1 < i"
        by linarith
      from low_x [OF this] low_x [of j] j Suc.prems(6) [of j]
      show "X_DELTA_MIN_VALUE h \<le> xs ! j - xs ! (j - 1)"
        by simp
    qed
    have low: "fst (to_car_frame (cx ! i) (cy ! i) px py sn cs) - xs ! (i - 1) < X_DELTA_MIN_VALUE h"
      using True rot low_x [OF i1] by simp
    have tail: "\<forall>j. i \<le> j \<and> j < n \<longrightarrow>
                       xs ! j - xs ! (j - 1) = (xs ! (i - 1) - xs ! (i - 2)) / real (n - i + 1)
                     \<and> ys ! j - ys ! (j - 1) = (ys ! (i - 1) - ys ! (i - 2)) / real (n - i + 1)"
      using tx(3) ty(3) by (simp only: low_x [OF i1] low_x [OF i2] low_y [OF i1] low_y [OF i2]) simp
    have "i \<le> i \<and> i \<le> n
          \<and> (\<forall>j. j < i \<longrightarrow> (xs ! j, ys ! j) = to_car_frame (cx ! j) (cy ! j) px py sn cs)
          \<and> (\<forall>j. degree < j \<and> j < i \<longrightarrow> X_DELTA_MIN_VALUE h \<le> xs ! j - xs ! (j - 1))
          \<and> (if i = n then f = 1
              else degree < i \<and> 2 \<le> i \<and> f = real (i + 1) / real n
                \<and> fst (to_car_frame (cx ! i) (cy ! i) px py sn cs) - xs ! (i - 1)
                     < X_DELTA_MIN_VALUE h
                \<and> (\<forall>j. i \<le> j \<and> j < n \<longrightarrow>
                       xs ! j - xs ! (j - 1) = (xs ! (i - 1) - xs ! (i - 2)) / real (n - i + 1)
                     \<and> ys ! j - ys ! (j - 1) = (ys ! (i - 1) - ys ! (i - 2)) / real (n - i + 1)))"
      using less True two f car gap low tail by simp
    with tx(1) ty(1) show ?thesis
      by blast
  next
    case False
    with step Suc.prems(1)
    have rec: "xyvals_from h degree n cx cy px py sn cs (i + 1) (xv @ [x_rot]) (yv @ [y_rot])
               = Inr (xs, ys, f)"
      by (auto split: if_splits)
    have car: "((xv @ [x_rot]) ! j, (yv @ [y_rot]) ! j) = to_car_frame (cx ! j) (cy ! j) px py sn cs"
      if "j < i + 1" for j
      using that Suc.prems(2,3,5) rot by (cases "j = i") (simp_all add: nth_append)
    have gap: "X_DELTA_MIN_VALUE h \<le> (xv @ [x_rot]) ! j - (xv @ [x_rot]) ! (j - 1)"
      if "degree < j" "j < i + 1" for j
    proof (cases "j = i")
      case True
      with that False Suc.prems(2) show ?thesis
        by (simp add: nth_append)
    next
      case False
      with that have "j < i" "j - 1 < i"
        by linarith+
      with that Suc.prems(2) Suc.prems(6) [of j] show ?thesis
        by (simp add: nth_append)
    qed
    from Suc.hyps(1) [OF d rec _ _ _ car gap] Suc.prems(2,3) less
    obtain b where "length xs = n" "length ys = n" "i + 1 \<le> b" "b \<le> n"
      and rest: "(\<forall>j. j < b \<longrightarrow> (xs ! j, ys ! j) = to_car_frame (cx ! j) (cy ! j) px py sn cs)
          \<and> (\<forall>j. degree < j \<and> j < b \<longrightarrow> X_DELTA_MIN_VALUE h \<le> xs ! j - xs ! (j - 1))
          \<and> (if b = n then f = 1
              else degree < b \<and> 2 \<le> b \<and> f = real (b + 1) / real n
                \<and> fst (to_car_frame (cx ! b) (cy ! b) px py sn cs) - xs ! (b - 1)
                     < X_DELTA_MIN_VALUE h
                \<and> (\<forall>j. b \<le> j \<and> j < n \<longrightarrow>
                       xs ! j - xs ! (j - 1) = (xs ! (b - 1) - xs ! (b - 2)) / real (n - b + 1)
                     \<and> ys ! j - ys ! (j - 1) = (ys ! (b - 1) - ys ! (b - 2)) / real (n - b + 1)))"
      by auto
    then have "i \<le> b"
      by simp
    with \<open>length xs = n\<close> \<open>length ys = n\<close> \<open>b \<le> n\<close> rest show ?thesis
      by blast
  qed
qed


text \<open>With a degree of at least 1 and \<open>n\<close> window points the loop reaches no error.\<close>

lemma xyvals_from_returns:
  assumes "n \<le> length cx" "n \<le> length cy" "1 \<le> degree" "length xv = i" "length yv = i"
  shows "\<exists>xs ys f. xyvals_from h degree n cx cy px py sn cs i xv yv = Inr (xs, ys, f)"
  using assms(4,5)
proof (induction "n - i" arbitrary: i xv yv)
  case 0
  then show ?case
    by (simp add: xyvals_from.simps [of h degree n cx cy px py sn cs i])
next
  case (Suc d)
  then have less: "i < n" and d: "d = n - (i + 1)"
    by simp_all
  obtain x_rot y_rot where rot: "to_car_frame (cx ! i) (cy ! i) px py sn cs = (x_rot, y_rot)"
    by (cases "to_car_frame (cx ! i) (cy ! i) px py sn cs")
  note step = xyvals_from_step [OF less Suc.prems rot, of h degree]
  from Suc.prems have "length (xv @ [x_rot]) = i + 1" "length (yv @ [y_rot]) = i + 1"
    by simp_all
  from Suc.hyps(1) [OF d this] step less assms(1-3) show ?case
    by auto
qed

text \<open>
  Claim C5, as amended. After the loop both vectors have \<open>num_steps_poly\<close> entries. Up to
  the index \<open>b\<close> at which the loop breaks (\<open>b = num_steps_poly\<close> when it does not) the
  entries are the window points in the car frame, and \<open>x_c[i] - x_c[i-1] \<ge> X_DELTA_MIN\<close>
  for every \<open>i\<close> with \<open>poly_degree < i < b\<close>. From \<open>b\<close> on the entries are evenly spaced by
  \<open>(x_c[b-1] - x_c[b-2]) / (num_steps_poly - b + 1)\<close>, a step that \<open>X_DELTA_MIN\<close> does not
  bound, and \<open>fraction_steps_OK = (b + 1) / num_steps_poly\<close>.
\<close>

theorem stabilizer_spacing:
  assumes "xyvals h degree n cx cy px py sn cs = Inr (x_c, y_c, fraction_steps_OK)"
  shows "length x_c = n \<and> length y_c = n
    \<and> (\<exists>b. b \<le> n
          \<and> (\<forall>i. i < b \<longrightarrow> (x_c ! i, y_c ! i) = to_car_frame (cx ! i) (cy ! i) px py sn cs)
          \<and> (\<forall>i. degree < i \<and> i < b \<longrightarrow> X_DELTA_MIN_VALUE h \<le> x_c ! i - x_c ! (i - 1))
          \<and> (if b = n then fraction_steps_OK = 1
              else degree < b \<and> 2 \<le> b \<and> fraction_steps_OK = real (b + 1) / real n
                \<and> fst (to_car_frame (cx ! b) (cy ! b) px py sn cs) - x_c ! (b - 1)
                     < X_DELTA_MIN_VALUE h
                \<and> (\<forall>i. b \<le> i \<and> i < n \<longrightarrow>
                       x_c ! i - x_c ! (i - 1) = (x_c ! (b - 1) - x_c ! (b - 2)) / real (n - b + 1)
                     \<and> y_c ! i - y_c ! (i - 1) = (y_c ! (b - 1) - y_c ! (b - 2)) / real (n - b + 1))))"
  using xyvals_from_spacing [of h degree n cx cy px py sn cs 0 "[]" "[]" x_c y_c fraction_steps_OK]
    assms
  by (simp add: xyvals_def)

text \<open>Car-frame abscissae 0, 1, 2, 2.05: the loop breaks at index 3 and appends 2.5.\<close>

theorem stabilizer_spacing_witness:
  "xyvals (track_h (\<lambda>state coeffs v. [1 / 10, 2])) 1 4 [3, 4, 5, 101 / 20] [0, 0, 0, 0] 3 0 0 1
     = Inr ([0, 1, 2, 5 / 2], [0, 0, 0, 0], 1)
   \<and> length [0, 1, 2, 5 / 2 :: real] = 4
   \<and> (\<exists>b \<le> 4. \<forall>i. 1 < i \<and> i < b \<longrightarrow>
          X_DELTA_MIN_VALUE (track_h (\<lambda>state coeffs v. [1 / 10, 2]))
            \<le> [0, 1, 2, 5 / 2 :: real] ! i - [0, 1, 2, 5 / 2] ! (i - 1))"
proof -
  have run: "xyvals (track_h (\<lambda>state coeffs v. [1 / 10, 2])) 1 4 [3, 4, 5, 101 / 20] [0, 0, 0, 0] 3 0 0 1
     = Inr ([0, 1, 2, 5 / 2], [0, 0, 0, 0], 1)"
    by (simp add: xyvals_def xyvals_from.simps to_car_frame_def track_h_fields upt_conv_Cons)
  from stabilizer_spacing [OF run] run show ?thesis
    by auto
qed

text \<open>
  Against claim C5 as stated: car-frame abscissae 0, 0.15, 0.2, 0.3 with degree 1 and
  \<open>X_DELTA_MIN = 0.1\<close>. The loop breaks at index 2 and appends 0.2 and 0.25, so at index
  \<open>2 > poly_degree\<close> the spacing is 0.05.
\<close>

theorem stabilizer_tail_below_minimum:
  "xyvals (track_h (\<lambda>state coeffs v. [1 / 10, 2])) 1 4 [3, 63 / 20, 16 / 5, 33 / 10] [0, 0, 0, 0]
       3 0 0 1
     = Inr ([0, 3 / 20, 1 / 5, 1 / 4], [0, 0, 0, 0], 3 / 4)
   \<and> \<not> ((2::nat) \<le> 1
          \<or> X_DELTA_MIN_VALUE (track_h (\<lambda>state coeffs v. [1 / 10, 2]))
               \<le> [0, 3 / 20, 1 / 5, 1 / 4 :: real] ! 2 - [0, 3 / 20, 1 / 5, 1 / 4] ! (2 - 1))"
  by (simp add: xyvals_def xyvals_from.simps to_car_frame_def track_h_fields upt_conv_Cons)

subsection \<open>The reference velocity of an iteration\<close>

text \<open>
  The fraction that the stabilizer reports lies in \<open>(0, 1]\<close>, so for \<open>ref_v_alpha\<close> in
  \<open>[0, 1]\<close> and a non-negative \<open>ref_v\<close> the solver is never asked for more than \<open>ref_v\<close>.
\<close>

lemma xyvals_fraction:
  assumes "xyvals h degree n cx cy px py sn cs = Inr (xs, ys, f)"
  shows "0 < f \<and> f \<le> 1"
proof -
  have run: "xyvals_from h degree n cx cy px py sn cs 0 [] [] = Inr (xs, ys, f)"
    using assms by (simp only: xyvals_def)
  have "\<exists>b. b \<le> n \<and> (if b = n then f = 1 else f = real (b + 1) / real n)"
    using xyvals_from_spacing [OF run list.size(3) list.size(3) le0]
    by (fastforce split: if_splits)
  then obtain b where "b \<le> n" and f: "if b = n then f = 1 else f = real (b + 1) / real n"
    by blast
  show ?thesis
  proof (cases "b = n")
    case True
    with f show ?thesis by simp
  next
    case False
    with \<open>b \<le> n\<close> have "b + 1 \<le> n" "0 < n"
      by simp_all
    then have "real (b + 1) \<le> real n" "0 < real n"
      by (simp_all only: of_nat_le_iff of_nat_0_less_iff)
    with f False show ?thesis
      by (simp add: divide_le_eq_1)
  qed
qed

lemma new_ref_v_bounds:
  assumes "0 \<le> alpha" "alpha \<le> 1" "0 \<le> v" "0 < f" "f \<le> 1"
  shows "0 \<le> new_ref_v alpha v f \<and> new_ref_v alpha v f \<le> v"
proof -
  have "0 \<le> alpha * v" "0 \<le> (1 - alpha) * (f * v)"
    using assms by simp_all
  then have low: "0 \<le> new_ref_v alpha v f"
    by (simp add: new_ref_v_def)
  have "f * v \<le> v"
    using assms by (simp add: mult_left_le_one_le)
  then have "(1 - alpha) * (f * v) \<le> (1 - alpha) * v"
    using assms by (simp add: mult_left_mono)
  then have "alpha * v + (1 - alpha) * (f * v) \<le> alpha * v + (1 - alpha) * v"
    by simp
  also have "\<dots> = v"
    by (simp add: algebra_simps)
  finally show ?thesis
    using low by (simp add: new_ref_v_def)
qed

text \<open>
  The example track with the car heading against it and four window steps: in the car
  frame the abscissae decrease, the stabilizer breaks at index 2 and reports the fraction
  \<open>3/4\<close>. The solver here returns the reference velocity it is given as its speed.
\<close>

lemma reversed_closest_pts:
  "closest_pts (track_h solver) [0, 1, 2, 3, 4, 5, 6, 7, 8, 9] [0, 0, 0, 0, 0, 0, 0, 0, 0, 0] 2 4
   = Inr ([2, 4, 6, 8], [0, 0, 0, 0])"
  by (simp add: closest_pts_def closest_pts_from.simps window_idx_def int_of_size_t_def
        size_t_of_int_def track_h_fields)

lemma reversed_xyvals:
  "xyvals (track_h solver) (Suc 0) 4 [2, 4, 6, 8] [0, 0, 0, 0] 3 0 0 (- 1)
   = Inr ([1, - 1, - (5 / 3), - (7 / 3)], [0, 0, 0, 0], 3 / 4)"
  by (simp add: xyvals_def xyvals_from.simps to_car_frame_def track_h_fields upt_conv_Cons)

lemma reversed_loop_body:
  "loop_body (track_h (\<lambda>state coeffs v. [1 / 10, v]))
     (track_node\<lparr> m_psi := pi, m_num_steps_poly := 4 \<rparr>)
   = Inr (track_node\<lparr> m_psi := pi, m_steer := 2 / 5, m_rpm := 10500 / pi, m_num_steps_poly := 4 \<rparr>,
          [(Commands_servo_position, Float64 (2 / 5)),
           (Commands_motor_speed, Float64 (10500 / pi))])"
  by (simp add: loop_body_def track_node_def psi_lat_def pos_x_lat_def pos_y_lat_def
        track_find_closest reversed_closest_pts reversed_xyvals new_ref_v_def actuate_def
        actuators_def rpm_of_speed_def clip_steer_def track_h_fields)

text \<open>
  Claim C8. On an iteration with all inputs ready that completes, the solver is called
  with the reference velocity
  \<open>m_ref_v_alpha * m_ref_v + (1 - m_ref_v_alpha) * (fraction_steps_OK * m_ref_v)\<close>, where
  \<open>fraction_steps_OK\<close> is the fraction that the stabilizer returned on this iteration's
  window; and for \<open>m_ref_v_alpha\<close> in \<open>[0, 1]\<close>, \<open>m_ref_v > 0\<close> and \<open>fraction_steps_OK < 1\<close> that
  value is at most \<open>m_ref_v\<close>.
\<close>

theorem tick_ref_v_smoothing:
  assumes "loop_body h s = Inr (s', published)"
    and "m_pts_OK s" "m_speed_OK s" "m_pos_OK s" "m_psi_OK s"
  shows "\<exists>closest_idx closest_pts_x closest_pts_y xvals_vec yvals_vec fraction_steps_OK.
           find_closest (m_pts_x s) (m_pts_y s) (pos_x_lat h s) (pos_y_lat h s) = Inr closest_idx
           \<and> closest_pts h (m_pts_x s) (m_pts_y s) (closest_idx - NUM_STEPS_BACK h)
                 (m_num_steps_poly s) = Inr (closest_pts_x, closest_pts_y)
           \<and> xyvals h (m_poly_degree s) (m_num_steps_poly s) closest_pts_x closest_pts_y
                 (pos_x_lat h s) (pos_y_lat h s) (sin (psi_lat h s)) (cos (psi_lat h s))
               = Inr (xvals_vec, yvals_vec, fraction_steps_OK)
           \<and> (let new_ref_v = m_ref_v_alpha s * m_ref_v s
                                + (1 - m_ref_v_alpha s) * (fraction_steps_OK * m_ref_v s);
                    coeffs = polyfit h (take (m_num_steps_poly s) xvals_vec)
                               (take (m_num_steps_poly s) yvals_vec) (m_poly_degree s)
                in actuate h s
                     (Solve h [0, 0, 0, polyeval h coeffs 0, - arctan (coeffs ! 1)] coeffs new_ref_v)
                     xvals_vec yvals_vec coeffs (pos_x_lat h s) (pos_y_lat h s)
                     (sin (psi_lat h s)) (cos (psi_lat h s))
                   = Inr (s', published)
                 \<and> (0 \<le> m_ref_v_alpha s \<and> m_ref_v_alpha s \<le> 1 \<and> 0 < m_ref_v s
                      \<and> fraction_steps_OK < 1 \<longrightarrow> new_ref_v \<le> m_ref_v s))"
proof -
  from assms obtain closest_idx cx cy xv yv f
    where fc: "find_closest (m_pts_x s) (m_pts_y s) (pos_x_lat h s) (pos_y_lat h s) = Inr closest_idx"
      and cp: "closest_pts h (m_pts_x s) (m_pts_y s) (closest_idx - NUM_STEPS_BACK h)
                 (m_num_steps_poly s) = Inr (cx, cy)"
      and xy: "xyvals h (m_poly_degree s) (m_num_steps_poly s) cx cy
                 (pos_x_lat h s) (pos_y_lat h s) (sin (psi_lat h s)) (cos (psi_lat h s))
               = Inr (xv, yv, f)"
    by (auto simp: loop_body_def Let_def split: sum.splits prod.splits if_splits)
  let ?v = "m_ref_v_alpha s * m_ref_v s + (1 - m_ref_v_alpha s) * (f * m_ref_v s)"
  let ?coeffs = "polyfit h (take (m_num_steps_poly s) xv) (take (m_num_steps_poly s) yv)
                   (m_poly_degree s)"
  from assms fc cp xy
  have act: "actuate h s
               (Solve h [0, 0, 0, polyeval h ?coeffs 0, - arctan (?coeffs ! 1)] ?coeffs ?v)
               xv yv ?coeffs (pos_x_lat h s) (pos_y_lat h s)
               (sin (psi_lat h s)) (cos (psi_lat h s))
             = Inr (s', published)"
    by (simp add: loop_body_def Let_def new_ref_v_def split: if_splits)
  have bound: "0 \<le> m_ref_v_alpha s \<and> m_ref_v_alpha s \<le> 1 \<and> 0 < m_ref_v s \<and> f < 1 \<longrightarrow> ?v \<le> m_ref_v s"
    using new_ref_v_le [of "m_ref_v_alpha s" "m_ref_v s" f] by blast
  from fc cp xy act bound show ?thesis
    unfolding Let_def by blast
qed

text \<open>
  On the reversed example: \<open>1/2 * 2 + (1 - 1/2) * (3/4 * 2) = 7/4\<close>, which the solver hands
  back and the iteration publishes as \<open>7/4 * 6000 / pi\<close> rpm.
\<close>

theorem tick_ref_v_smoothing_witness:
  "loop_body (track_h (\<lambda>state coeffs v. [1 / 10, v]))
     (track_node\<lparr> m_psi := pi, m_num_steps_poly := 4 \<rparr>)
   = Inr (track_node\<lparr> m_psi := pi, m_steer := 2 / 5, m_rpm := 10500 / pi, m_num_steps_poly := 4 \<rparr>,
          [(Commands_servo_position, Float64 (2 / 5)),
           (Commands_motor_speed, Float64 (10500 / pi))])
   \<and> m_pts_OK (track_node\<lparr> m_psi := pi, m_num_steps_poly := 4 \<rparr>)
   \<and> m_speed_OK (track_node\<lparr> m_psi := pi, m_num_steps_poly := 4 \<rparr>)
   \<and> m_pos_OK (track_node\<lparr> m_psi := pi, m_num_steps_poly := 4 \<rparr>)
   \<and> m_psi_OK (track_node\<lparr> m_psi := pi, m_num_steps_poly := 4 \<rparr>)
   \<and> xyvals (track_h (\<lambda>state coeffs v. [1 / 10, v])) 1 4 [2, 4, 6, 8] [0, 0, 0, 0] 3 0 0 (- 1)
       = Inr ([1, - 1, - (5 / 3), - (7 / 3)], [0, 0, 0, 0], 3 / 4)
   \<and> 0 \<le> m_ref_v_alpha (track_node\<lparr> m_psi := pi, m_num_steps_poly := 4 \<rparr>)
   \<and> m_ref_v_alpha (track_node\<lparr> m_psi := pi, m_num_steps_poly := 4 \<rparr>) \<le> 1
   \<and> 0 < m_ref_v (track_node\<lparr> m_psi := pi, m_num_steps_poly := 4 \<rparr>)
   \<and> (3 / 4 :: real) < 1
   \<and> m_ref_v_alpha (track_node\<lparr> m_psi := pi, m_num_steps_poly := 4 \<rparr>)
         * m_ref_v (track_node\<lparr> m_psi := pi, m_num_steps_poly := 4 \<rparr>)
       + (1 - m_ref_v_alpha (track_node\<lparr> m_psi := pi, m_num_steps_poly := 4 \<rparr>))
         * (3 / 4 * m_ref_v (track_node\<lparr> m_psi := pi, m_num_steps_poly := 4 \<rparr>))
       \<le> m_ref_v (track_node\<lparr> m_psi := pi, m_num_steps_poly := 4 \<rparr>)"
proof -
  let ?s = "track_node\<lparr> m_psi := pi, m_num_steps_poly := 4 \<rparr>"
  have ready: "m_pts_OK ?s" "m_speed_OK ?s" "m_pos_OK ?s" "m_psi_OK ?s"
    by (simp_all add: track_node_def)
  have pose: "pos_x_lat (track_h (\<lambda>state coeffs v. [1 / 10, v])) ?s = 3"
    "pos_y_lat (track_h (\<lambda>state coeffs v. [1 / 10, v])) ?s = 0"
    "psi_lat (track_h (\<lambda>state coeffs v. [1 / 10, v])) ?s = pi"
    "m_pts_x ?s = [0, 1, 2, 3, 4, 5, 6, 7, 8, 9]" "m_pts_y ?s = [0, 0, 0, 0, 0, 0, 0, 0, 0, 0]"
    "m_poly_degree ?s = Suc 0" "m_num_steps_poly ?s = 4"
    "m_ref_v_alpha ?s = 1 / 2" "m_ref_v ?s = 2"
    by (simp_all add: track_node_def psi_lat_def pos_x_lat_def pos_y_lat_def)
  from tick_ref_v_smoothing [OF reversed_loop_body ready] ready
  show ?thesis
    by (simp add: reversed_loop_body pose track_find_closest reversed_closest_pts reversed_xyvals
          track_h_fields Let_def)
qed

subsection \<open>Iterations that complete\<close>

text \<open>
  With a non-empty centre line of fewer than \<open>2^31\<close> points, a degree of at least 1, a fit
  that returns \<open>degree + 1\<close> coefficients, a solver that returns at least two values and
  \<^verbatim>\<open>m_debug\<close> off, an iteration with all inputs ready reaches no error.
\<close>

lemma loop_body_returns:
  assumes "m_pts_OK s" "m_speed_OK s" "m_pos_OK s" "m_psi_OK s"
    and pts: "0 < length (m_pts_x s)" "length (m_pts_x s) = length (m_pts_y s)"
             "length (m_pts_x s) < 2147483648"
    and degree: "1 \<le> m_poly_degree s"
    and fit: "\<And>xs ys. length (polyfit h xs ys (m_poly_degree s)) = m_poly_degree s + 1"
    and solver: "\<And>state coeffs v. 2 \<le> length (Solve h state coeffs v)"
    and "\<not> m_debug s"
  shows "\<exists>s' published. loop_body h s = Inr (s', published)"
proof -
  let ?n = "m_num_steps_poly s"
  obtain closest_idx where fc:
    "find_closest (m_pts_x s) (m_pts_y s) (pos_x_lat h s) (pos_y_lat h s) = Inr closest_idx"
  proof -
    from pts(2) have "length (m_pts_x s) \<le> length (m_pts_y s)"
      by simp
    from find_closest_from_returns [OF this, of "pos_x_lat h s" "pos_y_lat h s" 0 "- 1" "10 ^ 19"]
    show ?thesis
      using that by (auto simp add: find_closest_def)
  qed
  obtain cx cy where cp:
    "closest_pts h (m_pts_x s) (m_pts_y s) (closest_idx - NUM_STEPS_BACK h) ?n = Inr (cx, cy)"
    and len: "length cx = ?n" "length cy = ?n"
    using closest_pts_eq [OF pts, of h "closest_idx - NUM_STEPS_BACK h" ?n] by simp
  obtain xs ys f where xy:
    "xyvals h (m_poly_degree s) ?n cx cy (pos_x_lat h s) (pos_y_lat h s)
       (sin (psi_lat h s)) (cos (psi_lat h s)) = Inr (xs, ys, f)"
  proof -
    have "?n \<le> length cx" "?n \<le> length cy" "length ([] :: real list) = 0"
      using len by simp_all
    from xyvals_from_returns [OF this(1,2) degree this(3,3)]
    have "\<exists>xs ys f. xyvals_from h (m_poly_degree s) ?n cx cy (pos_x_lat h s) (pos_y_lat h s)
            (sin (psi_lat h s)) (cos (psi_lat h s)) 0 [] [] = Inr (xs, ys, f)" .
    then show ?thesis
      using that by (auto simp add: xyvals_def)
  qed
  from xyvals_from_spacing [of h "m_poly_degree s" ?n cx cy "pos_x_lat h s" "pos_y_lat h s"
         "sin (psi_lat h s)" "cos (psi_lat h s)" 0 "[]" "[]" xs ys f] xy
  have "length xs = ?n" "length ys = ?n"
    by (simp_all add: xyvals_def)
  with fc cp xy assms(1-4) degree fit solver \<open>\<not> m_debug s\<close> show ?thesis
    by (simp add: loop_body_def actuate_def Let_def not_less split: prod.splits)
qed

subsection \<open>Start-up\<close>

lemmas dec_defs =
  dec_atof_def dec_atoi_def split_sign_def is_digit_def is_space_def digits_value_def

text \<open>
  Claim C7, as amended. \<open>main\<close> returns 1 exactly when the argument count is not 15, or
  \<open>ref_v_alpha\<close> is above 1 or below 0, or the debug argument is neither \<open>true\<close> nor
  \<open>false\<close>; in every other case it starts the node with the values as parsed, whatever
  they are.
\<close>

theorem main_exit_code:
  "main atoi atof argv =
     (if length argv \<noteq> 15 \<or> atof (argv ! 4) > 1 \<or> atof (argv ! 4) < 0
         \<or> (argv ! 14 \<noteq> ''true'' \<and> argv ! 14 \<noteq> ''false'')
      then Exit 1
      else Node_started
             \<lparr> steps_ahead = atoi (argv ! 1), dt = atof (argv ! 2),
               ref_v = atof (argv ! 3), ref_v_alpha = atof (argv ! 4),
               latency = atof (argv ! 5),
               cte_coeff = atof (argv ! 6), epsi_coeff = atof (argv ! 7),
               speed_coeff = atof (argv ! 8), steer_coeff = atof (argv ! 9),
               consec_steer_coeff = atof (argv ! 10),
               consec_speed_coeff = atof (argv ! 11),
               poly_degree = atoi (argv ! 12), num_steps_poly = atoi (argv ! 13),
               debug = (argv ! 14 = ''true'') \<rparr>)"
  by (simp add: main_def Let_def)

text \<open>The three kinds of rejected command lines: \<open>ref_v_alpha\<close>, debug, argument count.\<close>

theorem main_exit_code_witness:
  "main dec_atoi dec_atof
     [''mpc_node'', ''10'', ''0.1'', ''2'', ''1.5'', ''0.1'', ''1'', ''1'', ''1'', ''1'', ''1'', ''1'',
      ''3'', ''10'', ''true''] = Exit 1
   \<and> main dec_atoi dec_atof
     [''mpc_node'', ''10'', ''0.1'', ''2'', ''0.5'', ''0.1'', ''1'', ''1'', ''1'', ''1'', ''1'', ''1'',
      ''3'', ''10'', ''yes''] = Exit 1
   \<and> main dec_atoi dec_atof
     [''mpc_node'', ''10'', ''0.1'', ''2'', ''0.5'', ''0.1'', ''1'', ''1'', ''1'', ''1'', ''1'', ''1'',
      ''3'', ''10''] = Exit 1"
  using main_exit_code [of dec_atoi dec_atof
     "[''mpc_node'', ''10'', ''0.1'', ''2'', ''1.5'', ''0.1'', ''1'', ''1'', ''1'', ''1'', ''1'', ''1'',
      ''3'', ''10'', ''true'']"]
    main_exit_code [of dec_atoi dec_atof
     "[''mpc_node'', ''10'', ''0.1'', ''2'', ''0.5'', ''0.1'', ''1'', ''1'', ''1'', ''1'', ''1'', ''1'',
      ''3'', ''10'', ''yes'']"]
    main_exit_code [of dec_atoi dec_atof
     "[''mpc_node'', ''10'', ''0.1'', ''2'', ''0.5'', ''0.1'', ''1'', ''1'', ''1'', ''1'', ''1'', ''1'',
      ''3'', ''10'']"]
  by (simp add: dec_defs)

text \<open>
  Against claim C7 as stated: a command line with \<open>steps_ahead = 1\<close>, \<open>dt = - 0.1\<close>,
  \<open>ref_v = - 2\<close>, \<open>latency = - 1\<close>, all cost coefficients \<open>- 1\<close>, \<open>poly_degree = 0\<close> and
  \<open>num_steps_poly = 0\<close> does not end in exit code 1: the node is started with these values.
\<close>

theorem unchecked_configuration_starts:
  "main dec_atoi dec_atof
     [''mpc_node'', ''1'', ''-0.1'', ''-2'', ''0.5'', ''-1'', ''-1'', ''-1'', ''-1'', ''-1'', ''-1'', ''-1'',
      ''0'', ''0'', ''true'']
   = Node_started
       \<lparr> steps_ahead = 1, dt = - 1 / 10, ref_v = - 2, ref_v_alpha = 1 / 2, latency = - 1,
         cte_coeff = - 1, epsi_coeff = - 1, speed_coeff = - 1, steer_coeff = - 1,
         consec_steer_coeff = - 1, consec_speed_coeff = - 1,
         poly_degree = 0, num_steps_poly = 0, debug = True \<rparr>
   \<and> main dec_atoi dec_atof
     [''mpc_node'', ''1'', ''-0.1'', ''-2'', ''0.5'', ''-1'', ''-1'', ''-1'', ''-1'', ''-1'', ''-1'', ''-1'',
      ''0'', ''0'', ''true''] \<noteq> Exit 1"
  by (simp add: main_def dec_defs)

end
